theory Spec2Isabelle
  imports Complex_Main "HOL-Library.AList"
begin

section \<open>Python values, errors and containers\<close>

text \<open>
  Exceptions of the Python source are values: every function that can raise returns
  \<open>error + 'a\<close>, with \<open>Inl\<close> for the exception that propagates.
\<close>

datatype error = KeyError | IndexError | ValueError | TypeError | AttributeError | FileLayerError

definition ebind :: "error + 'a \<Rightarrow> ('a \<Rightarrow> error + 'b) \<Rightarrow> error + 'b" where
  "ebind m f = (case m of Inl e \<Rightarrow> Inl e | Inr x \<Rightarrow> f x)"

text \<open>The substring test \<^verbatim>\<open>p in s\<close> of Python strings.\<close>

fun py_in :: "string \<Rightarrow> string \<Rightarrow> bool" where
  "py_in p [] = (p = [])"
| "py_in p (c # cs) = (take (length p) (c # cs) = p \<or> py_in p cs)"

text \<open>
  A loop whose body can raise: the first exception ends the loop and propagates.
\<close>

fun efold :: "('a \<Rightarrow> 's \<Rightarrow> error + 's) \<Rightarrow> 'a list \<Rightarrow> 's \<Rightarrow> error + 's" where
  "efold f [] s = Inr s"
| "efold f (x # xs) s = ebind (f x s) (efold f xs)"

text \<open>
  Indexing and slicing of Python sequences at non-negative positions: \<^verbatim>\<open>xs[i]\<close> raises
  IndexError out of range, \<^verbatim>\<open>xs[a:b]\<close> clips to the sequence and is empty when
  \<open>b \<le> a\<close>.
\<close>

definition py_get :: "'a list \<Rightarrow> nat \<Rightarrow> error + 'a" where
  "py_get xs i = (if i < length xs then Inr (xs ! i) else Inl IndexError)"

definition py_slice :: "nat \<Rightarrow> nat \<Rightarrow> 'a list \<Rightarrow> 'a list" where
  "py_slice a b xs = drop a (take b xs)"

section \<open>Arrays, values and dictionaries\<close>

text \<open>
  A numpy array is its shape and its elements in row-major order.  Float and integer
  arrays are kept apart; a string array of dtype \<^verbatim>\<open>S<width>\<close> carries its width, and a
  character array is a string array of width 1 (dtype \<^verbatim>\<open>S1\<close>) whose elements are
  single characters or the empty string.  Masks are not modelled.
\<close>

datatype ndarray =
    NumArr "nat list" "real list"
  | IntArr "nat list" "int list"
  | StrArr "nat list" nat "string list"

fun arr_shape :: "ndarray \<Rightarrow> nat list" where
  "arr_shape (NumArr sh xs) = sh"
| "arr_shape (IntArr sh xs) = sh"
| "arr_shape (StrArr sh w xs) = sh"

fun set_shape :: "nat list \<Rightarrow> ndarray \<Rightarrow> ndarray" where
  "set_shape sh (NumArr _ xs) = NumArr sh xs"
| "set_shape sh (IntArr _ xs) = IntArr sh xs"
| "set_shape sh (StrArr _ w xs) = StrArr sh w xs"

definition arr_size :: "ndarray \<Rightarrow> nat" where
  "arr_size a = prod_list (arr_shape a)"

text \<open>
  The values a dictionary of the radar record or an attribute of the file can hold:
  strings, numbers and arrays.
\<close>

datatype pyval = PStr string | PInt int | PFloat real | PArr ndarray

text \<open>
  A Python dictionary is an association list with distinct keys, in iteration order:
  \<open>map_of d k\<close> is \<^verbatim>\<open>d.get(k)\<close>, \<open>AList.update\<close> is the assignment
  \<^verbatim>\<open>d[k] = v\<close> (in place for an existing key, at the end for a new one) and
  \<open>AList.delete\<close> is \<^verbatim>\<open>d.pop(k)\<close> or \<^verbatim>\<open>del d[k]\<close>.
\<close>

type_synonym 'v dict = "(string \<times> 'v) list"

type_synonym pydict = "pyval dict"

definition has_key :: "'v dict \<Rightarrow> string \<Rightarrow> bool" where
  "has_key d k \<longleftrightarrow> map_of d k \<noteq> None"

definition py_item :: "'v dict \<Rightarrow> string \<Rightarrow> error + 'v" where
  "py_item d k = (case map_of d k of None \<Rightarrow> Inl KeyError | Some v \<Rightarrow> Inr v)"

text \<open>\<^verbatim>\<open>np.array(x)\<close> for a value that is not an array yet: a zero-dimensional array.\<close>

fun np_array :: "pyval \<Rightarrow> ndarray" where
  "np_array (PArr a) = a"
| "np_array (PStr s) = StrArr [] (max 1 (length s)) [s]"
| "np_array (PInt i) = IntArr [] [i]"
| "np_array (PFloat x) = NumArr [] [x]"

text \<open>
  \<^verbatim>\<open>len(x[0])\<close> for the data of a string variable: the second dimension of an array
  with two or more dimensions, the length of the first string of a one-dimensional string
  array.  Indexing a zero-dimensional or empty array raises IndexError; the length of a
  number raises TypeError.
\<close>

fun len_first :: "pyval \<Rightarrow> error + nat" where
  "len_first (PArr (StrArr [] w xs)) = Inl IndexError"
| "len_first (PArr (StrArr [n] w xs)) =
     (if n = 0 then Inl IndexError
      else case xs of [] \<Rightarrow> Inl IndexError | s # _ \<Rightarrow> Inr (length s))"
| "len_first (PArr (StrArr (n # m # sh) w xs)) = (if n = 0 then Inl IndexError else Inr m)"
| "len_first (PArr (NumArr [] xs)) = Inl IndexError"
| "len_first (PArr (NumArr [n] xs)) = (if n = 0 then Inl IndexError else Inl TypeError)"
| "len_first (PArr (NumArr (n # m # sh) xs)) = (if n = 0 then Inl IndexError else Inr m)"
| "len_first (PArr (IntArr [] xs)) = Inl IndexError"
| "len_first (PArr (IntArr [n] xs)) = (if n = 0 then Inl IndexError else Inl TypeError)"
| "len_first (PArr (IntArr (n # m # sh) xs)) = (if n = 0 then Inl IndexError else Inr m)"
| "len_first (PStr s) = (if s = [] then Inl IndexError else Inr 1)"
| "len_first (PInt i) = Inl TypeError"
| "len_first (PFloat x) = Inl TypeError"

text \<open>\<^verbatim>\<open>len(x)\<close>: the first dimension of an array, TypeError for a zero-dimensional
  array or a number.\<close>

fun py_len :: "pyval \<Rightarrow> error + nat" where
  "py_len (PArr a) = (case arr_shape a of [] \<Rightarrow> Inl TypeError | n # _ \<Rightarrow> Inr n)"
| "py_len (PStr s) = Inr (length s)"
| "py_len (PInt i) = Inl TypeError"
| "py_len (PFloat x) = Inl TypeError"

text \<open>\<^verbatim>\<open>x.size\<close>: only arrays have the attribute.\<close>

fun py_size :: "pyval \<Rightarrow> error + nat" where
  "py_size (PArr a) = Inr (arr_size a)"
| "py_size (PStr s) = Inl AttributeError"
| "py_size (PInt i) = Inl AttributeError"
| "py_size (PFloat x) = Inl AttributeError"

text \<open>
  \<^verbatim>\<open>x[0]\<close> and \<^verbatim>\<open>x[-1]\<close> as numbers, for the time coordinate.  The time data is a
  one-dimensional numeric array; for any other value the model raises TypeError.
\<close>

fun num_elems :: "pyval \<Rightarrow> error + real list" where
  "num_elems (PArr (NumArr [n] xs)) = Inr xs"
| "num_elems (PArr (IntArr [n] xs)) = Inr (map real_of_int xs)"
| "num_elems v = Inl TypeError"

definition first_num :: "pyval \<Rightarrow> error + real" where
  "first_num v = ebind (num_elems v) (\<lambda>xs. py_get xs 0)"

definition last_num :: "pyval \<Rightarrow> error + real" where
  "last_num v = ebind (num_elems v) (\<lambda>xs. if xs = [] then Inl IndexError else Inr (last xs))"

text \<open>A dictionary entry that must be a string (the \<^verbatim>\<open>units\<close> of the time variable).\<close>

definition str_item :: "pydict \<Rightarrow> string \<Rightarrow> error + string" where
  "str_item d k = ebind (py_item d k) (\<lambda>v. case v of PStr s \<Rightarrow> Inr s | _ \<Rightarrow> Inl TypeError)"

text \<open>The slice \<^verbatim>\<open>s[-n:]\<close> of a string: its last \<open>n\<close> characters, all of it when shorter.\<close>

definition py_last :: "nat \<Rightarrow> 'a list \<Rightarrow> 'a list" where
  "py_last n xs = drop (length xs - n) xs"

text \<open>\<^verbatim>\<open>sep.join(xs)\<close>.\<close>

fun py_join :: "string \<Rightarrow> string list \<Rightarrow> string" where
  "py_join sep [] = []"
| "py_join sep [x] = x"
| "py_join sep (x # y # ys) = x @ sep @ py_join sep (y # ys)"

text \<open>\<^verbatim>\<open>s.replace(a, b)\<close> for a single character \<open>a\<close>.\<close>

definition py_replace :: "char \<Rightarrow> string \<Rightarrow> string \<Rightarrow> string" where
  "py_replace a b s = concat (map (\<lambda>c. if c = a then b else [c]) s)"

text \<open>
  Modelled from the spec: \<^verbatim>\<open>stringarray_to_chararray\<close> of \<^verbatim>\<open>pyart.io.common\<close>, which
  is not among the sources.  The spec says that string data is bridged to a fixed-length
  character-array representation before the array is handed to the file layer: each
  string of width \<open>w\<close> becomes \<open>w\<close> characters along a new last dimension, short
  strings filled with empty characters.
\<close>

fun stringarray_to_chararray :: "ndarray \<Rightarrow> ndarray" where
  "stringarray_to_chararray (StrArr sh w xs) =
     StrArr (sh @ [w]) 1 (concat (map (\<lambda>s. map (\<lambda>c. [c]) (take w s) @ replicate (w - length s) []) xs))"
| "stringarray_to_chararray a = a"

text \<open>The test \<^verbatim>\<open>data.dtype.char is 'S' and data.dtype != 'S1'\<close> (and its unicode twin).\<close>

fun wide_string_array :: "ndarray \<Rightarrow> bool" where
  "wide_string_array (StrArr sh w xs) = (w \<noteq> 1)"
| "wide_string_array a = False"

fun char_array :: "ndarray \<Rightarrow> bool" where
  "char_array (StrArr sh w xs) = (w = 1)"
| "char_array a = False"

text \<open>
  The text of a character array, as \<^verbatim>\<open>netCDF4.chartostring\<close> joins it: the characters
  in order, empty characters dropped.
\<close>

fun arr_text :: "ndarray \<Rightarrow> string" where
  "arr_text (StrArr sh w xs) = concat xs"
| "arr_text a = []"

section \<open>The file layer\<close>

text \<open>
  The netCDF4 library is outside the module; the model keeps what the module relies on.
  A variable has its dimension names, the rounding hint given at creation, its attributes
  in the order of the file, and the data assigned to it (none before the assignment).
  Setting an attribute that exists keeps its place, a new attribute goes last, and
  deleting an attribute removes it.  A variable created with a fill value has the
  attribute \<^verbatim>\<open>_FillValue\<close> from the start, and a variable created with a rounding
  hint has the attribute \<^verbatim>\<open>least_significant_digit\<close> from the start, after the fill
  value (the library records the keyword as an attribute of the variable).  Reading a
  variable gives back the array assigned to it: rounding to the hint and the filling of
  a variable wider than its data are not modelled.  Creating a dimension or a variable under a
  name in use, or a variable over an unknown dimension, is refused by the library.
  Failures of the operating system are not modelled.
\<close>

record ncvar =
  v_dimensions :: "string list"
  v_least_significant_digit :: "pyval option"
  v_attrs :: pydict
  v_data :: "ndarray option"

record dataset =
  ds_dimensions :: "nat option dict"
  ds_attrs :: pydict
  ds_variables :: "ncvar dict"
  ds_open :: bool

definition new_dataset :: dataset where
  "new_dataset = \<lparr>ds_dimensions = [], ds_attrs = [], ds_variables = [], ds_open = True\<rparr>"

definition createDimension :: "string \<Rightarrow> nat option \<Rightarrow> dataset \<Rightarrow> error + dataset" where
  "createDimension name n ds =
     (if has_key (ds_dimensions ds) name then Inl FileLayerError
      else Inr (ds\<lparr>ds_dimensions := ds_dimensions ds @ [(name, n)]\<rparr>))"

definition createVariable ::
  "string \<Rightarrow> string list \<Rightarrow> pyval option \<Rightarrow> pyval option \<Rightarrow> dataset \<Rightarrow> error + ncvar"
where
  "createVariable name dimensions lsd fill_value ds =
     (if has_key (ds_variables ds) name then Inl FileLayerError
      else if \<not> list_all (has_key (ds_dimensions ds)) dimensions then Inl FileLayerError
      else Inr \<lparr>v_dimensions = dimensions,
                v_least_significant_digit = lsd,
                v_attrs = (case fill_value of None \<Rightarrow> [] | Some fv \<Rightarrow> [(''_FillValue'', fv)])
                          @ (case lsd of None \<Rightarrow> []
                             | Some x \<Rightarrow> [(''least_significant_digit'', x)]),
                v_data = None\<rparr>)"

definition setncattr :: "string \<Rightarrow> pyval \<Rightarrow> ncvar \<Rightarrow> ncvar" where
  "setncattr k x v = v\<lparr>v_attrs := AList.update k x (v_attrs v)\<rparr>"

definition delncattr :: "string \<Rightarrow> ncvar \<Rightarrow> ncvar" where
  "delncattr k v = v\<lparr>v_attrs := AList.delete k (v_attrs v)\<rparr>"

definition ds_setncattr :: "string \<Rightarrow> pyval \<Rightarrow> dataset \<Rightarrow> dataset" where
  "ds_setncattr k x ds = ds\<lparr>ds_attrs := AList.update k x (ds_attrs ds)\<rparr>"

section \<open>Writer: the variable-create helper\<close>

text \<open>
  \<^verbatim>\<open>_create_ncvar(dic, dataset, name, dimensions)\<close>, lines 607--674.  The variable
  object is built step by step and is part of the dataset from its creation on; since no
  step after the creation can fail, the model adds the finished variable to the dataset.
\<close>

text \<open>Lines 663--666: every entry of the dictionary but the four named keys.\<close>

definition handled_keys :: "string list" where
  "handled_keys = [''data'', ''_FillValue'', ''long_name'', ''units'']"

definition set_all_attributes :: "pydict \<Rightarrow> ncvar \<Rightarrow> ncvar" where
  "set_all_attributes dic ncvar =
     fold (\<lambda>(key, val) v. if key \<notin> set handled_keys then setncattr key val v else v)
          dic ncvar"

text \<open>Lines 623--633: the data as an array, strings turned into characters.\<close>

definition data_array :: "pyval \<Rightarrow> ndarray" where
  "data_array d =
     (let data = np_array d
      in if wide_string_array data then stringarray_to_chararray data else data)"

text \<open>Lines 669--670: a zero-dimensional array gets the shape \<open>(1,)\<close>.\<close>

definition at_least_1d :: "ndarray \<Rightarrow> ndarray" where
  "at_least_1d data = (if arr_shape data = [] then set_shape [1] data else data)"

definition create_ncvar :: "pydict \<Rightarrow> string \<Rightarrow> string list \<Rightarrow> dataset \<Rightarrow> error + dataset" where
  "create_ncvar dic name dimensions ds =
     ebind (py_item dic ''data'') (\<lambda>d.
       let data = data_array d;
           lsd = map_of dic ''least_significant_digit'';
           fill_value = map_of dic ''_FillValue''
       in ebind (createVariable name dimensions lsd fill_value ds) (\<lambda>ncvar0.
            let ncvar1 = (case map_of dic ''long_name'' of
                            Some x \<Rightarrow> setncattr ''long_name'' x ncvar0 | None \<Rightarrow> ncvar0);
                ncvar2 = (case map_of dic ''units'' of
                            Some x \<Rightarrow> setncattr ''units'' x ncvar1 | None \<Rightarrow> ncvar1);
                ncvar3 = (case map_of (v_attrs ncvar2) ''_FillValue'' of
                            Some fv \<Rightarrow> setncattr ''_FillValue'' fv (delncattr ''_FillValue'' ncvar2)
                          | None \<Rightarrow> ncvar2);
                ncvar4 = set_all_attributes dic ncvar3;
                ncvar5 = ncvar4\<lparr>v_data := Some (at_least_1d data)\<rparr>
            in Inr (ds\<lparr>ds_variables := ds_variables ds @ [(name, ncvar5)]\<rparr>)))"

text \<open>A run of calls of \<^verbatim>\<open>_create_ncvar\<close>, in order, stopping at the first failure.\<close>

definition create_all :: "(pydict \<times> string \<times> string list) list \<Rightarrow> dataset \<Rightarrow> error + dataset" where
  "create_all reqs ds = efold (\<lambda>(dic, name, dimensions). create_ncvar dic name dimensions) reqs ds"

text \<open>An optional variable: written only when the record has it.\<close>

definition optional :: "pydict option \<Rightarrow> string \<Rightarrow> string list \<Rightarrow> (pydict \<times> string \<times> string list) list" where
  "optional dic name dimensions = (case dic of None \<Rightarrow> [] | Some d \<Rightarrow> [(d, name, dimensions)])"

section \<open>Reader: scan type\<close>

text \<open>
  Lines 154--179 of \<^verbatim>\<open>read_cfradial\<close>: the first sweep mode, already converted to a
  string, determines \<^verbatim>\<open>scan_type\<close>.  The branches are kept in the order of the
  \<^verbatim>\<open>if/elif\<close> chain.
\<close>

definition derive_scan_type :: "string \<Rightarrow> string" where
  "derive_scan_type mode =
     (if mode = ''rhi'' then ''rhi''
      else if mode = ''vertical_pointing'' then ''vpt''
      else if mode = ''azimuth_surveillance'' then ''ppi''
      else if mode = ''elevation_surveillance'' then ''rhi''
      else if mode = ''manual_ppi'' then ''ppi''
      else if mode = ''manual_rhi'' then ''rhi''
      else if py_in ''sur'' mode then ''ppi''
      else if py_in ''sec'' mode then ''sector''
      else if py_in ''rhi'' mode then ''rhi''
      else ''other'')"

section \<open>Reader: the ray-reshape helper\<close>

text \<open>
  \<^verbatim>\<open>_stream_to_2d(data, sweeps, sweepe, ray_len, maxgates, nrays, ray_start_index)\<close>,
  lines 326--347.  The four index arrays hold ray indices, gate counts and offsets; they
  are lists of naturals here, and differences such as \<^verbatim>\<open>se - ss\<close> are taken in
  \<open>int\<close>, where the source can get a negative number.  Array elements are reals
  (the target array is a float array); masks are not modelled.  The two-dimensional array
  \<^verbatim>\<open>time_range\<close> is a list of \<open>nrays\<close> rows of \<open>maxgates\<close> cells.
\<close>

definition sentinel :: real where
  "sentinel = - 9999"

text \<open>\<^verbatim>\<open>a.reshape(n, w)\<close> of a flat array of \<open>n * w\<close> elements, row by row.\<close>

fun reshape2 :: "nat \<Rightarrow> nat \<Rightarrow> 'a list \<Rightarrow> 'a list list" where
  "reshape2 0 w xs = []"
| "reshape2 (Suc n) w xs = take w xs # reshape2 n w (drop w xs)"

text \<open>
  The assignment \<^verbatim>\<open>time_range[ss:se, 0:rle] = vals\<close> where \<open>vals\<close> has shape
  \<open>(n, rle)\<close>.  The target block is clipped to the array; numpy raises ValueError unless
  each dimension of the value equals that of the block or is 1 (then it is repeated).
\<close>

definition bulk_assign ::
  "real list list \<Rightarrow> nat \<Rightarrow> nat \<Rightarrow> nat \<Rightarrow> nat \<Rightarrow> nat \<Rightarrow> real list list \<Rightarrow> error + real list list"
where
  "bulk_assign time_range maxgates ss se n rle vals =
     (let lo = min ss (length time_range);
          hi = min se (length time_range);
          k = hi - lo;
          w = min rle maxgates
      in if (n = k \<or> n = 1) \<and> (rle = w \<or> rle = 1) then
           Inr (map (\<lambda>(i, row).
                  if lo \<le> i \<and> i < hi then
                    (let v = vals ! (if n = k then i - lo else 0)
                     in (if rle = w then v else replicate w (hd v)) @ drop w row)
                  else row)
                (enumerate 0 time_range))
         else Inl ValueError)"

text \<open>
  The assignment \<^verbatim>\<open>time_range[r, 0:len] = vals\<close> of one ray: IndexError when the row
  does not exist, ValueError unless the value has the width of the clipped target or a
  single element.
\<close>

definition ray_assign ::
  "real list list \<Rightarrow> nat \<Rightarrow> nat \<Rightarrow> nat \<Rightarrow> real list \<Rightarrow> error + real list list"
where
  "ray_assign time_range maxgates r len vals =
     (let w = min len maxgates
      in if \<not> r < length time_range then Inl IndexError
         else if length vals = w then
           Inr (time_range[r := vals @ drop w (time_range ! r)])
         else if length vals = 1 then
           Inr (time_range[r := replicate w (hd vals) @ drop w (time_range ! r)])
         else Inl ValueError)"

text \<open>
  The test of line 337, \<^verbatim>\<open>ray_len[ss:se].sum() == rle * (se - ss)\<close>.
\<close>

definition uniform_check :: "nat list \<Rightarrow> nat \<Rightarrow> nat \<Rightarrow> nat \<Rightarrow> bool" where
  "uniform_check ray_len ss se rle \<longleftrightarrow>
     int (sum_list (py_slice ss se ray_len)) = int rle * (int se - int ss)"

text \<open>The body of the inner loop, lines 343--345, for one \<open>rn\<close>.\<close>

definition ragged_ray ::
  "real list \<Rightarrow> nat list \<Rightarrow> nat \<Rightarrow> nat list \<Rightarrow> nat \<Rightarrow> nat \<Rightarrow> real list list \<Rightarrow> error + real list list"
where
  "ragged_ray data ray_len maxgates ray_start_index ss rn time_range =
     ebind (py_get ray_start_index (ss + rn)) (\<lambda>start.
     ebind (py_get ray_len (ss + rn)) (\<lambda>len.
       ray_assign time_range maxgates (ss + rn) len (py_slice start (start + len) data)))"

text \<open>
  The body of the outer loop, lines 333--346, for one \<open>sweep_number\<close>; the state is
  the pair of \<^verbatim>\<open>time_range\<close> and \<^verbatim>\<open>cp\<close>.  In the bulk branch a negative
  \<^verbatim>\<open>se - ss\<close> can only meet \<open>rle = 0\<close>, and numpy refuses to reshape to
  \<open>(negative, 0)\<close>; otherwise the slice must have exactly \<open>(se - ss) * rle\<close>
  elements for \<^verbatim>\<open>reshape\<close> to succeed.
\<close>

definition sweep_step ::
  "real list \<Rightarrow> nat list \<Rightarrow> nat list \<Rightarrow> nat list \<Rightarrow> nat \<Rightarrow> nat list \<Rightarrow> nat
     \<Rightarrow> real list list \<times> nat \<Rightarrow> error + real list list \<times> nat"
where
  "sweep_step data sweeps sweepe ray_len maxgates ray_start_index sweep_number st =
     (case st of (time_range, cp) \<Rightarrow>
     ebind (py_get sweeps sweep_number) (\<lambda>ss.
     ebind (py_get sweepe sweep_number) (\<lambda>se.
     ebind (py_get ray_len ss) (\<lambda>rle.
       if uniform_check ray_len ss se rle then
         (if se < ss then Inl ValueError
          else
            (let n = se - ss;
                 chunk = py_slice cp (cp + n * rle) data
             in if length chunk \<noteq> n * rle then Inl ValueError
                else ebind (bulk_assign time_range maxgates ss se n rle (reshape2 n rle chunk))
                       (\<lambda>tr. Inr (tr, cp + n * rle))))
       else
         ebind (efold (ragged_ray data ray_len maxgates ray_start_index ss) [0 ..< se - ss]
                  time_range)
           (\<lambda>tr. Inr (tr, cp + sum_list (py_slice ss se ray_len)))))))"

definition stream_to_2d ::
  "real list \<Rightarrow> nat list \<Rightarrow> nat list \<Rightarrow> nat list \<Rightarrow> nat \<Rightarrow> nat \<Rightarrow> nat list
     \<Rightarrow> error + real list list"
where
  "stream_to_2d data sweeps sweepe ray_len maxgates nrays ray_start_index =
     ebind (efold (sweep_step data sweeps sweepe ray_len maxgates ray_start_index)
              [0 ..< length sweepe]
              (replicate nrays (replicate maxgates sentinel), 0))
       (\<lambda>(time_range, cp). Inr time_range)"

section \<open>The radar record and the environment\<close>

text \<open>
  Modelled from the spec: the \<^verbatim>\<open>Radar\<close> class of \<^verbatim>\<open>pyart.core.radar\<close>, which is not
  among the sources.  The spec describes it as a plain structured record of attributed
  arrays (dictionaries with a \<^verbatim>\<open>data\<close> entry; \<open>radar_fields\<close> is the member
  \<^verbatim>\<open>fields\<close> and \<open>gate_range\<close> the member \<^verbatim>\<open>range\<close>), optional members that are unset
  (\<open>None\<close>) or set, and the derived scalars \<^verbatim>\<open>ngates\<close> and \<^verbatim>\<open>nsweeps\<close>.
\<close>

record radar =
  time :: pydict
  gate_range :: pydict
  radar_fields :: "pydict dict"
  metadata :: pydict
  scan_type :: string
  latitude :: pydict
  longitude :: pydict
  altitude :: pydict
  sweep_number :: pydict
  sweep_mode :: pydict
  fixed_angle :: pydict
  sweep_start_ray_index :: pydict
  sweep_end_ray_index :: pydict
  azimuth :: pydict
  elevation :: pydict
  instrument_parameters :: "pydict dict option"
  radar_calibration :: "pydict dict option"
  altitude_agl :: "pydict option"
  scan_rate :: "pydict option"
  antenna_transition :: "pydict option"
  target_scan_rate :: "pydict option"
  rotation :: "pydict option"
  tilt :: "pydict option"
  roll :: "pydict option"
  drift :: "pydict option"
  heading :: "pydict option"
  pitch :: "pydict option"
  georefs_applied :: "pydict option"
  ngates :: nat
  nsweeps :: nat

text \<open>
  What the writer takes from outside the program: the user and host names, the clock, and
  the date arithmetic of the netCDF4 library (\<^verbatim>\<open>num2date\<close>, which can raise on a units
  string it does not understand).  Of a date the writer uses its ISO format, its distance
  in seconds from the epoch and its ARM format.
\<close>

record datetime =
  isoformat :: string
  epoch_seconds :: int
  arm_format :: string

record env =
  getuser :: string
  node :: string
  now_isoformat :: string
  num2date :: "real \<Rightarrow> string \<Rightarrow> error + datetime"

section \<open>Writer\<close>

text \<open>
  \<^verbatim>\<open>write_cfradial(filename, radar, format, time_reference, arm_time_variables)\<close>, lines
  350--604, block by block in the order of the source.  The file name and the format
  only reach the library and are left out.
\<close>

text \<open>The table of lines 37--61.\<close>

definition INSTRUMENT_PARAMS_DIMS :: "string list dict" where
  "INSTRUMENT_PARAMS_DIMS =
     [(''frequency'', [''frequency'']),
      (''follow_mode'', [''sweep'', ''string_length'']),
      (''pulse_width'', [''time'']),
      (''prt_mode'', [''sweep'', ''string_length'']),
      (''prt'', [''time'']),
      (''prt_ratio'', [''time'']),
      (''polarization_mode'', [''sweep'', ''string_length'']),
      (''nyquist_velocity'', [''time'']),
      (''unambiguous_range'', [''time'']),
      (''n_samples'', [''time'']),
      (''sampling_ratio'', [''time'']),
      (''radar_antenna_gain_h'', []),
      (''radar_antenna_gain_v'', []),
      (''radar_beam_width_h'', []),
      (''radar_beam_width_v'', []),
      (''radar_reciever_bandwidth'', []),
      (''radar_measured_transmit_power_h'', [''time'']),
      (''radar_measured_transmit_power_v'', [''time'']),
      (''radar_rx_bandwidth'', []),
      (''measured_transmit_power_v'', [''time'']),
      (''measured_transmit_power_h'', [''time''])]"

text \<open>Lines 383--390: the string length.\<close>

definition string_length :: "radar \<Rightarrow> error + nat" where
  "string_length radar =
     ebind (py_item (sweep_mode radar) ''data'') (\<lambda>d.
     ebind (len_first d) (\<lambda>max_str_len0.
     ebind (efold (\<lambda>k max_str_len.
                     case instrument_parameters radar of
                       None \<Rightarrow> Inr max_str_len
                     | Some ip \<Rightarrow>
                         (case map_of ip k of
                            None \<Rightarrow> Inr max_str_len
                          | Some dic \<Rightarrow>
                              ebind (py_item dic ''data'') (\<lambda>d.
                              ebind (len_first d) (\<lambda>sdim_length.
                                Inr (max max_str_len sdim_length)))))
                  [''follow_mode'', ''prt_mode'', ''polarization_mode''] max_str_len0)
       (\<lambda>max_str_len. Inr (max max_str_len 32))))"

text \<open>Lines 392--396: the dimensions; \<open>None\<close> is the unlimited size.\<close>

definition create_dimensions :: "radar \<Rightarrow> dataset \<Rightarrow> error + dataset" where
  "create_dimensions radar ds =
     ebind (string_length radar) (\<lambda>str_len.
     ebind (createDimension ''time'' None ds) (\<lambda>ds1.
     ebind (createDimension ''range'' (Some (ngates radar)) ds1) (\<lambda>ds2.
     ebind (createDimension ''sweep'' (Some (nsweeps radar)) ds2) (\<lambda>ds3.
       createDimension ''string_length'' (Some str_len) ds3))))"

text \<open>Lines 398--428: the global attributes, \<^verbatim>\<open>history\<close> last.\<close>

definition global_variables :: "string list" where
  "global_variables = [''volume_number'', ''platform_type'', ''instrument_type'',
                       ''primary_axis'', ''time_coverage_start'', ''time_coverage_end'',
                       ''time_reference'']"

definition synthesized_history :: "env \<Rightarrow> string" where
  "synthesized_history e =
     ''created by '' @ getuser e @ '' on '' @ node e @ '' at '' @ now_isoformat e
       @ '' using Py-ART''"

definition write_global_attributes :: "env \<Rightarrow> radar \<Rightarrow> dataset \<Rightarrow> dataset" where
  "write_global_attributes e radar ds =
     (let metadata_copy0 = fold AList.delete global_variables (metadata radar);
          (history, metadata_copy) =
             (case map_of metadata_copy0 ''history'' of
                Some h \<Rightarrow> (h, AList.delete ''history'' metadata_copy0)
              | None \<Rightarrow> (PStr (synthesized_history e), metadata_copy0));
          ds1 = fold (\<lambda>(k, x). ds_setncattr k x) metadata_copy ds;
          ds2 = (if \<not> has_key (ds_attrs ds1) ''Conventions''
                 then ds_setncattr ''Conventions'' (PStr ''CF/Radial'') ds1 else ds1);
          ds3 = (if \<not> has_key (ds_attrs ds2) ''field_names''
                 then ds_setncattr ''field_names''
                        (PStr (py_join '', '' (map fst (radar_fields radar)))) ds2
                 else ds2)
      in ds_setncattr ''history'' history ds3)"

text \<open>Lines 430--450: the ARM time variables, when asked for.\<close>

definition write_arm_time_variables :: "env \<Rightarrow> radar \<Rightarrow> bool \<Rightarrow> dataset \<Rightarrow> error + dataset" where
  "write_arm_time_variables e radar arm_time_variables ds =
     (if arm_time_variables then
        ebind (py_item (time radar) ''data'') (\<lambda>tdata.
        ebind (first_num tdata) (\<lambda>t0.
        ebind (str_item (time radar) ''units'') (\<lambda>units.
        ebind (num2date e t0 units) (\<lambda>dt.
          let base_time =
                [(''data'', PArr (IntArr [1] [epoch_seconds dt])),
                 (''string'', PStr (arm_format dt)),
                 (''units'', PStr ''seconds since 1970-1-1 0:00:00 0:00''),
                 (''ancillary_variables'', PStr ''time_offset''),
                 (''long_name'', PStr ''Base time in Epoch'')];
              time_offset =
                [(''data'', tdata),
                 (''long_name'', PStr ''Time offset from base_time''),
                 (''units'', PStr (py_replace CHR ''Z'' [] (py_replace CHR ''T'' '' '' units))),
                 (''ancillary_variables'', PStr ''time_offset''),
                 (''calendar'', PStr ''gregorian'')]
          in create_all [(base_time, ''base_time'', []),
                         (time_offset, ''time_offset'', [''time''])] ds))))
      else Inr ds)"

text \<open>Lines 452--480: coordinates, pointing variables, fields and the sweep table.\<close>

definition write_standard_variables :: "radar \<Rightarrow> dataset \<Rightarrow> error + dataset" where
  "write_standard_variables radar ds =
     create_all
       ([(time radar, ''time'', [''time'']),
         (gate_range radar, ''range'', [''range'']),
         (azimuth radar, ''azimuth'', [''time'']),
         (elevation radar, ''elevation'', [''time''])]
        @ optional (scan_rate radar) ''scan_rate'' [''time'']
        @ optional (antenna_transition radar) ''antenna_transition'' [''time''])
       ds"

definition write_fields :: "radar \<Rightarrow> dataset \<Rightarrow> error + dataset" where
  "write_fields radar ds =
     create_all (map (\<lambda>(field, dic). (dic, field, [''time'', ''range''])) (radar_fields radar)) ds"

definition write_sweep_parameters :: "radar \<Rightarrow> dataset \<Rightarrow> error + dataset" where
  "write_sweep_parameters radar ds =
     create_all
       ([(sweep_number radar, ''sweep_number'', [''sweep'']),
         (fixed_angle radar, ''fixed_angle'', [''sweep'']),
         (sweep_start_ray_index radar, ''sweep_start_ray_index'', [''sweep'']),
         (sweep_end_ray_index radar, ''sweep_end_ray_index'', [''sweep'']),
         (sweep_mode radar, ''sweep_mode'', [''sweep'', ''string_length''])]
        @ optional (target_scan_rate radar) ''target_scan_rate'' [''sweep''])
       ds"

text \<open>Lines 482--494: the instrument parameters.\<close>

definition write_instrument_parameters :: "radar \<Rightarrow> dataset \<Rightarrow> error + dataset" where
  "write_instrument_parameters radar ds =
     (case instrument_parameters radar of
        None \<Rightarrow> Inr ds
      | Some ip \<Rightarrow>
          ebind (case map_of ip ''frequency'' of
                   None \<Rightarrow> Inr ds
                 | Some dic \<Rightarrow>
                     ebind (py_item dic ''data'') (\<lambda>d.
                     ebind (py_len d) (\<lambda>n.
                       createDimension ''frequency'' (Some n) ds)))
            (\<lambda>ds1.
               create_all
                 (map (\<lambda>(k, dic).
                         (dic, k, (case map_of INSTRUMENT_PARAMS_DIMS k of
                                     Some dimensions \<Rightarrow> dimensions | None \<Rightarrow> [])))
                      ip)
                 ds1))"

text \<open>
  Lines 496--508: the calibration variables.  The list comprehension of line 498 takes
  the length of every entry other than \<^verbatim>\<open>r_calib_index\<close> and \<^verbatim>\<open>r_calib_time\<close>, and
  \<^verbatim>\<open>[0]\<close> takes the first of these lengths.
\<close>

fun emap :: "('a \<Rightarrow> error + 'b) \<Rightarrow> 'a list \<Rightarrow> error + 'b list" where
  "emap f [] = Inr []"
| "emap f (x # xs) = ebind (f x) (\<lambda>y. ebind (emap f xs) (\<lambda>ys. Inr (y # ys)))"

definition calib_sizes :: "pydict dict \<Rightarrow> error + nat list" where
  "calib_sizes cal =
     emap (\<lambda>(k, d). ebind (py_item d ''data'') py_len)
          (filter (\<lambda>(k, d). k \<notin> set [''r_calib_index'', ''r_calib_time'']) cal)"

definition write_radar_calibration :: "radar \<Rightarrow> dataset \<Rightarrow> error + dataset" where
  "write_radar_calibration radar ds =
     (case radar_calibration radar of
        None \<Rightarrow> Inr ds
      | Some cal \<Rightarrow>
          ebind (calib_sizes cal) (\<lambda>sizes.
          ebind (py_get sizes 0) (\<lambda>n.
          ebind (createDimension ''r_calib'' (Some n) ds) (\<lambda>ds1.
            create_all
              (map (\<lambda>(key, dic).
                      (dic, key,
                       (if key = ''r_calib_index'' then [''time'']
                        else if key = ''r_calib_time'' then [''r_calib'', ''string_length'']
                        else [''r_calib''])))
                   cal)
              ds1))))"

text \<open>Lines 510--525: the location, scalar for a stationary platform.\<close>

definition write_location :: "radar \<Rightarrow> dataset \<Rightarrow> error + dataset" where
  "write_location radar ds =
     ebind (py_item (latitude radar) ''data'') (\<lambda>d.
     ebind (py_size d) (\<lambda>n.
       let dims = (if n = 1 then [] else [''time''])
       in create_all
            ([(latitude radar, ''latitude'', dims),
              (longitude radar, ''longitude'', dims),
              (altitude radar, ''altitude'', dims)]
             @ optional (altitude_agl radar) ''altitude_agl'' dims)
            ds))"

text \<open>Lines 527--539: the time coverage.\<close>

definition write_time_coverage :: "env \<Rightarrow> radar \<Rightarrow> dataset \<Rightarrow> error + dataset" where
  "write_time_coverage e radar ds =
     ebind (str_item (time radar) ''units'') (\<lambda>units.
     ebind (py_item (time radar) ''data'') (\<lambda>tdata.
     ebind (first_num tdata) (\<lambda>t0.
     ebind (num2date e t0 units) (\<lambda>start_dt.
     ebind (last_num tdata) (\<lambda>t1.
     ebind (num2date e t1 units) (\<lambda>end_dt.
       let start_dic = [(''data'', PArr (np_array (PStr (isoformat start_dt @ ''Z'')))),
                        (''long_name'', PStr ''UTC time of first ray in the file''),
                        (''units'', PStr ''unitless'')];
           end_dic = [(''data'', PArr (np_array (PStr (isoformat end_dt @ ''Z'')))),
                      (''long_name'', PStr ''UTC time of last ray in the file''),
                      (''units'', PStr ''unitless'')]
       in create_all [(start_dic, ''time_coverage_start'', [''string_length'']),
                      (end_dic, ''time_coverage_end'', [''string_length''])] ds))))))"

text \<open>
  Lines 541--551: the time reference.  \<open>None\<close> for the argument means that the
  variable is written when the first time value is not zero.
\<close>

definition wants_time_reference :: "radar \<Rightarrow> bool option \<Rightarrow> error + bool" where
  "wants_time_reference radar time_reference =
     (case time_reference of
        Some b \<Rightarrow> Inr b
      | None \<Rightarrow>
          ebind (py_item (time radar) ''data'') (\<lambda>tdata.
          ebind (first_num tdata) (\<lambda>t0. Inr (t0 \<noteq> 0))))"

definition write_time_reference :: "radar \<Rightarrow> bool option \<Rightarrow> dataset \<Rightarrow> error + dataset" where
  "write_time_reference radar time_reference ds =
     ebind (wants_time_reference radar time_reference) (\<lambda>wanted.
       if wanted then
         ebind (str_item (time radar) ''units'') (\<lambda>units.
           let ref_dic = [(''data'', PArr (np_array (PStr (py_last 20 units)))),
                          (''long_name'', PStr ''UTC time reference''),
                          (''units'', PStr ''unitless'')]
           in create_ncvar ref_dic ''time_reference'' [''string_length''] ds)
       else Inr ds)"

text \<open>
  Lines 553--579: the global variables.  The conversion of the volume number to a
  32-bit integer array keeps an integer, truncates a float and is refused for other
  values.
\<close>

fun to_int32 :: "pyval \<Rightarrow> error + int" where
  "to_int32 (PInt i) = Inr i"
| "to_int32 (PFloat x) = Inr (if x < 0 then \<lceil>x\<rceil> else \<lfloor>x\<rfloor>)"
| "to_int32 v = Inl ValueError"

definition metadata_string_variable ::
  "radar \<Rightarrow> string \<Rightarrow> string \<Rightarrow> (pydict \<times> string \<times> string list) list" where
  "metadata_string_variable radar name long_name =
     (case map_of (metadata radar) name of
        None \<Rightarrow> []
      | Some x \<Rightarrow> [([(''long_name'', PStr long_name), (''data'', PArr (np_array x))],
                    name, [''string_length''])])"

definition write_global_variables :: "radar \<Rightarrow> dataset \<Rightarrow> error + dataset" where
  "write_global_variables radar ds =
     ebind (case map_of (metadata radar) ''volume_number'' of
              Some x \<Rightarrow> to_int32 x
            | None \<Rightarrow> Inr 0) (\<lambda>vol.
       let vol_dic = [(''long_name'', PStr ''Volume number''),
                      (''units'', PStr ''unitless''),
                      (''data'', PArr (IntArr [1] [vol]))]
       in create_all
            ([(vol_dic, ''volume_number'', [])]
             @ metadata_string_variable radar ''platform_type'' ''Platform type''
             @ metadata_string_variable radar ''instrument_type'' ''Instrument type''
             @ metadata_string_variable radar ''primary_axis'' ''Primary axis'')
            ds)"

text \<open>Lines 581--602: the geo-reference variables of a moving platform.\<close>

definition write_georeference :: "radar \<Rightarrow> dataset \<Rightarrow> error + dataset" where
  "write_georeference radar ds =
     create_all
       (optional (rotation radar) ''rotation'' [''time'']
        @ optional (tilt radar) ''tilt'' [''time'']
        @ optional (roll radar) ''roll'' [''time'']
        @ optional (drift radar) ''drift'' [''time'']
        @ optional (heading radar) ''heading'' [''time'']
        @ optional (pitch radar) ''pitch'' [''time'']
        @ optional (georefs_applied radar) ''georefs_applied'' [''time''])
       ds"

text \<open>Line 604.\<close>

definition close :: "dataset \<Rightarrow> dataset" where
  "close ds = ds\<lparr>ds_open := False\<rparr>"

text \<open>
  The writer: \<open>Inr\<close> with the closed dataset when every block succeeds, \<open>Inl\<close>
  with the exception of the first block that fails (the dataset is then never closed).
\<close>

definition write_cfradial :: "env \<Rightarrow> radar \<Rightarrow> bool option \<Rightarrow> bool \<Rightarrow> error + dataset" where
  "write_cfradial e radar time_reference arm_time_variables =
     ebind (create_dimensions radar new_dataset) (\<lambda>ds1.
     ebind (write_arm_time_variables e radar arm_time_variables
              (write_global_attributes e radar ds1)) (\<lambda>ds2.
     ebind (write_standard_variables radar ds2) (\<lambda>ds3.
     ebind (write_fields radar ds3) (\<lambda>ds4.
     ebind (write_sweep_parameters radar ds4) (\<lambda>ds5.
     ebind (write_instrument_parameters radar ds5) (\<lambda>ds6.
     ebind (write_radar_calibration radar ds6) (\<lambda>ds7.
     ebind (write_location radar ds7) (\<lambda>ds8.
     ebind (write_time_coverage e radar ds8) (\<lambda>ds9.
     ebind (write_time_reference radar time_reference ds9) (\<lambda>ds10.
     ebind (write_global_variables radar ds10) (\<lambda>ds11.
     ebind (write_georeference radar ds11) (\<lambda>ds12.
       Inr (close ds12)))))))))))))"

section \<open>Reader\<close>

text \<open>
  \<^verbatim>\<open>read_cfradial(filename, field_names, additional_metadata, file_field_names,
  exclude_fields)\<close>, lines 64--293.  The opened file is a dataset of the file layer:
  its global attributes and its variables, in the order of the file.  Reading a variable
  (\<^verbatim>\<open>ncvar[:]\<close>) gives the array stored in it, and its shape is the shape of that
  array; a variable that was never assigned reads as an empty array.
\<close>

definition var_read :: "ncvar \<Rightarrow> ndarray" where
  "var_read v = (case v_data v of Some a \<Rightarrow> a | None \<Rightarrow> NumArr [0] [])"

definition var_shape :: "ncvar \<Rightarrow> nat list" where
  "var_shape v = arr_shape (var_read v)"

text \<open>\<^verbatim>\<open>_ncvar_to_dict\<close>, lines 304--313.\<close>

definition ncvar_to_dict :: "ncvar \<Rightarrow> pydict" where
  "ncvar_to_dict ncvar =
     (let d = v_attrs ncvar;
          data = var_read ncvar
      in AList.update ''data'' (PArr (at_least_1d data)) d)"

text \<open>A mandatory variable, \<^verbatim>\<open>_ncvar_to_dict(ncvars[name])\<close>, and an optional one.\<close>

definition mandatory_var :: "ncvar dict \<Rightarrow> string \<Rightarrow> error + pydict" where
  "mandatory_var ncvars name = ebind (py_item ncvars name) (\<lambda>v. Inr (ncvar_to_dict v))"

definition optional_var :: "ncvar dict \<Rightarrow> string \<Rightarrow> pydict option" where
  "optional_var ncvars name = map_option ncvar_to_dict (map_of ncvars name)"

text \<open>
  \<^verbatim>\<open>str(netCDF4.chartostring(a))\<close> for a one-dimensional character array: its text.
  For any other array the model raises ValueError (numpy would print a
  multi-dimensional result in its own format, which is not reproduced here).
\<close>

fun chartostring :: "ndarray \<Rightarrow> error + string" where
  "chartostring (StrArr [n] w xs) = (if w = 1 then Inr (concat xs) else Inl ValueError)"
| "chartostring a = Inl ValueError"

text \<open>The first row \<^verbatim>\<open>a[0]\<close> of an array of two dimensions.\<close>

fun first_row :: "pyval \<Rightarrow> error + ndarray" where
  "first_row (PArr (StrArr [n, m] w xs)) =
     (if n = 0 then Inl IndexError else Inr (StrArr [m] w (take m xs)))"
| "first_row (PArr (NumArr [n, m] xs)) =
     (if n = 0 then Inl IndexError else Inr (NumArr [m] (take m xs)))"
| "first_row (PArr (IntArr [n, m] xs)) =
     (if n = 0 then Inl IndexError else Inr (IntArr [m] (take m xs)))"
| "first_row v = Inl ValueError"

text \<open>\<^verbatim>\<open>int(a)\<close> of an array: only an array of one element converts.\<close>

fun py_int :: "ndarray \<Rightarrow> error + int" where
  "py_int (IntArr sh [i]) = Inr i"
| "py_int (NumArr sh [x]) = Inr (if x < 0 then \<lceil>x\<rceil> else \<lfloor>x\<rfloor>)"
| "py_int a = Inl TypeError"

text \<open>Lines 107--126: the metadata.\<close>

definition read_global_variable :: "ncvar dict \<Rightarrow> string \<times> string \<Rightarrow> pydict \<Rightarrow> error + pydict" where
  "read_global_variable ncvars vd md =
     (case vd of (var, default_value) \<Rightarrow>
        (case map_of ncvars var of
           Some v \<Rightarrow> ebind (chartostring (var_read v))
                       (\<lambda>s. Inr (AList.update var (PStr s) md))
         | None \<Rightarrow> Inr (AList.update var (PStr default_value) md)))"

definition read_metadata :: "dataset \<Rightarrow> error + pydict" where
  "read_metadata ncobj =
     (let ncvars = ds_variables ncobj;
          metadata = fold (\<lambda>(k, x) m. AList.update k x m) (ds_attrs ncobj) []
      in ebind (case map_of ncvars ''volume_number'' of
                  Some v \<Rightarrow> py_int (var_read v)
                | None \<Rightarrow> Inr 0) (\<lambda>vol.
           efold (read_global_variable ncvars)
             [(''platform_type'', ''fixed''), (''instrument_type'', ''radar''),
              (''primary_axis'', ''axis_z'')]
             (AList.update ''volume_number'' (PInt vol) metadata)))"

text \<open>
  Modelled from the spec: the method \<^verbatim>\<open>get_field_name\<close> of \<^verbatim>\<open>FileMetadata\<close>
  (\<^verbatim>\<open>pyart.config\<close>), which is not among the sources.  The spec calls it the field-name
  translation policy: a mapping from on-disk field name to output field name, an override
  that uses the on-disk names verbatim, and an exclusion set.  The docstring of the reader
  adds that a field the mapping has is renamed from key to value, that a field the
  mapping lacks or maps to \<open>None\<close> gets no name from the policy, and that the exclusion
  is applied after the renaming.  The result \<open>None\<close> tells the reader that the policy
  gives no name.
\<close>

definition get_field_name ::
  "string option dict option \<Rightarrow> bool \<Rightarrow> string list option \<Rightarrow> string \<Rightarrow> string option"
where
  "get_field_name field_names file_field_names exclude_fields key =
     (let name = (if file_field_names then Some key
                  else case field_names of
                         None \<Rightarrow> Some key
                       | Some names \<Rightarrow> (case map_of names key of
                                         Some (Some n) \<Rightarrow> Some n
                                       | _ \<Rightarrow> None))
      in case name of
           None \<Rightarrow> None
         | Some n \<Rightarrow> (case exclude_fields of
                        None \<Rightarrow> Some n
                      | Some ex \<Rightarrow> if n \<in> set ex then None else Some n))"

text \<open>
  The body of the loops of lines 238--244 and 257--265 for one key; \<open>to_dict\<close> is
  \<^verbatim>\<open>_ncvar_to_dict\<close> in the first loop and \<^verbatim>\<open>_stream_ncvar_to_dict\<close> in the second.
\<close>

definition add_field ::
  "string option dict option \<Rightarrow> bool \<Rightarrow> string list option \<Rightarrow> (ncvar \<Rightarrow> error + pydict)
     \<Rightarrow> string \<times> ncvar \<Rightarrow> pydict dict \<Rightarrow> error + pydict dict"
where
  "add_field field_names file_field_names exclude_fields to_dict kv fs =
     (case kv of (key, ncvar) \<Rightarrow>
        (case get_field_name field_names file_field_names exclude_fields key of
           None \<Rightarrow>
             (if exclude_fields \<noteq> None \<and> key \<in> set (the exclude_fields) then Inr fs
              else ebind (to_dict ncvar) (\<lambda>d. Inr (AList.update key d fs)))
         | Some field_name \<Rightarrow>
             ebind (to_dict ncvar) (\<lambda>d. Inr (AList.update field_name d fs))))"

text \<open>
  The index arrays of a stream file as lists of naturals, and the flat data as reals.
  A negative entry is outside the model of the ray-reshape helper and is refused.
\<close>

fun nat_elems :: "ndarray \<Rightarrow> error + nat list" where
  "nat_elems (IntArr sh xs) =
     (if list_all (\<lambda>i. 0 \<le> i) xs then Inr (map nat xs) else Inl ValueError)"
| "nat_elems a = Inl TypeError"

fun real_elems :: "ndarray \<Rightarrow> error + real list" where
  "real_elems (NumArr sh xs) = Inr xs"
| "real_elems (IntArr sh xs) = Inr (map real_of_int xs)"
| "real_elems a = Inl TypeError"

text \<open>\<^verbatim>\<open>_stream_ncvar_to_dict\<close>, lines 316--323.\<close>

definition stream_ncvar_to_dict ::
  "nat list \<Rightarrow> nat list \<Rightarrow> nat list \<Rightarrow> nat \<Rightarrow> nat \<Rightarrow> nat list \<Rightarrow> ncvar \<Rightarrow> error + pydict"
where
  "stream_ncvar_to_dict sweeps sweepe ray_len maxgates nrays ray_start_index ncvar =
     (let d = v_attrs ncvar
      in ebind (real_elems (var_read ncvar)) (\<lambda>flat.
         ebind (stream_to_2d flat sweeps sweepe ray_len maxgates nrays ray_start_index) (\<lambda>rows.
           Inr (AList.update ''data'' (PArr (NumArr [nrays, maxgates] (concat rows))) d))))"

text \<open>
  Lines 247--253: what the stream layout reads before its loop: the total gate count
  \<open>ngates\<close>, the sweep limits, the gate counts, the sizes of the grid and the offsets.
\<close>

record stream_layout =
  sl_ngates :: nat
  sl_sweeps :: "nat list"
  sl_sweepe :: "nat list"
  sl_ray_len :: "nat list"
  sl_maxgates :: nat
  sl_nrays :: nat
  sl_ray_start_index :: "nat list"

definition read_stream_layout :: "ncvar dict \<Rightarrow> error + stream_layout" where
  "read_stream_layout ncvars =
     ebind (py_item ncvars ''ray_start_index'') (\<lambda>rsi_var.
     ebind (nat_elems (var_read rsi_var)) (\<lambda>ray_start_index.
     if ray_start_index = [] then Inl IndexError
     else
     ebind (py_item ncvars ''ray_n_gates'') (\<lambda>rng_var.
     ebind (nat_elems (var_read rng_var)) (\<lambda>ray_len.
     if ray_len = [] then Inl IndexError
     else
       ebind (py_item ncvars ''sweep_start_ray_index'') (\<lambda>ss_var.
       ebind (nat_elems (var_read ss_var)) (\<lambda>sweeps.
       ebind (py_item ncvars ''sweep_end_ray_index'') (\<lambda>se_var.
       ebind (nat_elems (var_read se_var)) (\<lambda>sweepe.
       ebind (py_item ncvars ''range'') (\<lambda>range_var.
       ebind (py_get (var_shape range_var) 0) (\<lambda>maxgates.
       ebind (py_item ncvars ''time'') (\<lambda>time_var.
       ebind (py_get (var_shape time_var) 0) (\<lambda>nrays.
         Inr \<lparr>sl_ngates = last ray_start_index + last ray_len,
              sl_sweeps = sweeps, sl_sweepe = sweepe, sl_ray_len = ray_len,
              sl_maxgates = maxgates, sl_nrays = nrays,
              sl_ray_start_index = ray_start_index\<rparr>))))))))))))"

text \<open>Lines 231--265: the fields, for the two layouts of the file.\<close>

definition read_fields ::
  "string option dict option \<Rightarrow> bool \<Rightarrow> string list option \<Rightarrow> ncvar dict \<Rightarrow> error + pydict dict"
where
  "read_fields field_names file_field_names exclude_fields ncvars =
     (if \<not> has_key ncvars ''ray_start_index'' then
        (let keys = filter (\<lambda>(k, v). v_dimensions v = [''time'', ''range'']) ncvars
         in efold (add_field field_names file_field_names exclude_fields
                     (\<lambda>v. Inr (ncvar_to_dict v)))
              keys [])
      else
        ebind (read_stream_layout ncvars) (\<lambda>sl.
          let keys = filter (\<lambda>(k, v). var_shape v = [sl_ngates sl]) ncvars
          in efold (add_field field_names file_field_names exclude_fields
                      (stream_ncvar_to_dict (sl_sweeps sl) (sl_sweepe sl) (sl_ray_len sl)
                         (sl_maxgates sl) (sl_nrays sl) (sl_ray_start_index sl)))
               keys []))"

text \<open>Lines 267--272: the instrument parameters, unset when the file has none.\<close>

definition read_instrument_parameters :: "ncvar dict \<Rightarrow> pydict dict option" where
  "read_instrument_parameters ncvars =
     (let keys = filter (has_key ncvars) (map fst INSTRUMENT_PARAMS_DIMS);
          instrument_parameters =
            fold (\<lambda>k d. AList.update k (ncvar_to_dict (the (map_of ncvars k))) d) keys []
      in if instrument_parameters = [] then None else Some instrument_parameters)"

text \<open>\<^verbatim>\<open>_find_all_meta_group_vars\<close>, lines 296--301.\<close>

definition find_all_meta_group_vars :: "ncvar dict \<Rightarrow> string \<Rightarrow> string list" where
  "find_all_meta_group_vars ncvars meta_group_name =
     map fst (filter (\<lambda>(k, v). has_key (v_attrs v) ''meta_group'' \<and>
                               map_of (v_attrs v) ''meta_group'' = Some (PStr meta_group_name))
                     ncvars)"

text \<open>Lines 276--278: the calibration variables.\<close>

definition read_radar_calibration :: "ncvar dict \<Rightarrow> pydict dict" where
  "read_radar_calibration ncvars =
     (let keys = find_all_meta_group_vars ncvars ''radar_calibration''
      in fold (\<lambda>k d. AList.update k (ncvar_to_dict (the (map_of ncvars k))) d) keys [])"

text \<open>
  Modelled from the spec: the constructor of the \<^verbatim>\<open>Radar\<close> class, which is not among
  the sources.  It keeps every argument as it is given (the spec's plain structured
  record) and derives \<^verbatim>\<open>ngates\<close> and \<^verbatim>\<open>nsweeps\<close> as the lengths of the range and
  sweep-number arrays.
\<close>

definition first_dim :: "pydict \<Rightarrow> nat" where
  "first_dim d =
     (case map_of d ''data'' of
        Some (PArr a) \<Rightarrow> (case arr_shape a of [] \<Rightarrow> 0 | n # _ \<Rightarrow> n)
      | _ \<Rightarrow> 0)"

text \<open>The reader.\<close>

definition read_cfradial ::
  "dataset \<Rightarrow> string option dict option \<Rightarrow> bool \<Rightarrow> string list option \<Rightarrow> error + radar"
where
  "read_cfradial ncobj field_names file_field_names exclude_fields =
     (let ncvars = ds_variables ncobj
      in ebind (read_metadata ncobj) (\<lambda>metadata.
         ebind (mandatory_var ncvars ''time'') (\<lambda>time.
         ebind (mandatory_var ncvars ''range'') (\<lambda>range.
         ebind (mandatory_var ncvars ''latitude'') (\<lambda>latitude.
         ebind (mandatory_var ncvars ''longitude'') (\<lambda>longitude.
         ebind (mandatory_var ncvars ''altitude'') (\<lambda>altitude.
         ebind (mandatory_var ncvars ''sweep_number'') (\<lambda>sweep_number.
         ebind (mandatory_var ncvars ''sweep_mode'') (\<lambda>sweep_mode.
         ebind (mandatory_var ncvars ''fixed_angle'') (\<lambda>fixed_angle.
         ebind (mandatory_var ncvars ''sweep_start_ray_index'') (\<lambda>sweep_start_ray_index.
         ebind (mandatory_var ncvars ''sweep_end_ray_index'') (\<lambda>sweep_end_ray_index.
         ebind (py_item sweep_mode ''data'') (\<lambda>mode_data.
         ebind (first_row mode_data) (\<lambda>mode_row.
         ebind (chartostring mode_row) (\<lambda>mode.
         ebind (mandatory_var ncvars ''azimuth'') (\<lambda>azimuth.
         ebind (mandatory_var ncvars ''elevation'') (\<lambda>elevation.
         ebind (read_fields field_names file_field_names exclude_fields ncvars) (\<lambda>fields.
           Inr \<lparr>time = time, gate_range = range, radar_fields = fields, metadata = metadata,
                scan_type = derive_scan_type mode,
                latitude = latitude, longitude = longitude, altitude = altitude,
                sweep_number = sweep_number, sweep_mode = sweep_mode,
                fixed_angle = fixed_angle,
                sweep_start_ray_index = sweep_start_ray_index,
                sweep_end_ray_index = sweep_end_ray_index,
                azimuth = azimuth, elevation = elevation,
                instrument_parameters = read_instrument_parameters ncvars,
                radar_calibration = Some (read_radar_calibration ncvars),
                altitude_agl = optional_var ncvars ''altitude_agl'',
                scan_rate = optional_var ncvars ''scan_rate'',
                antenna_transition = optional_var ncvars ''antenna_transition'',
                target_scan_rate = optional_var ncvars ''target_scan_rate'',
                rotation = optional_var ncvars ''rotation'',
                tilt = optional_var ncvars ''tilt'',
                roll = optional_var ncvars ''roll'',
                drift = optional_var ncvars ''drift'',
                heading = optional_var ncvars ''heading'',
                pitch = optional_var ncvars ''pitch'',
                georefs_applied = optional_var ncvars ''georefs_applied'',
                ngates = first_dim range,
                nsweeps = first_dim sweep_number\<rparr>))))))))))))))))))"

text \<open>
  A later state of the dataset extends an earlier one when the global attributes are the
  same and every variable of the earlier state is still there, unchanged.
\<close>

definition extends :: "dataset \<Rightarrow> dataset \<Rightarrow> bool" where
  "extends ds ds' \<longleftrightarrow>
     ds_attrs ds' = ds_attrs ds \<and>
     (\<forall>n v. map_of (ds_variables ds) n = Some v \<longrightarrow> map_of (ds_variables ds') n = Some v)"

section \<open>The round trip\<close>






definition global_string_variables :: "string list" where
  "global_string_variables = [''platform_type'', ''instrument_type'', ''primary_axis'']"










definition readable_text :: "ndarray \<Rightarrow> bool" where
  "readable_text a = (case chartostring a of Inr s \<Rightarrow> True | Inl err \<Rightarrow> False)"

definition admissible :: "radar \<Rightarrow> string \<Rightarrow> string list \<Rightarrow> ndarray \<Rightarrow> bool" where
  "admissible R name dims a \<longleftrightarrow>
     (dims = [''time'', ''range''] \<longrightarrow> has_key (radar_fields R) name) \<and>
     (name \<in> set global_string_variables \<longrightarrow> readable_text a) \<and>
     name \<noteq> ''ray_start_index''"

definition all_admissible :: "radar \<Rightarrow> dataset \<Rightarrow> bool" where
  "all_admissible R ds \<longleftrightarrow>
     distinct (map fst (ds_variables ds)) \<and>
     list_all (\<lambda>(name, v). admissible R name (v_dimensions v) (var_read v)) (ds_variables ds)"


section \<open>A small radar volume\<close>

text \<open>
  Two rays of three gates in one sweep, with one field and no optional member; the user,
  the host and the clock of the environment are fixed.
\<close>

definition example_env :: env where
  "example_env =
     \<lparr>getuser = ''alice'', node = ''radar1'', now_isoformat = ''2014-03-01T12:00:00'',
      num2date = (\<lambda>t u. Inr \<lparr>isoformat = ''2011-05-20T10:54:11'',
                              epoch_seconds = 1305888851,
                              arm_format = ''20-May-2011,10:54:11 GMT''\<rparr>)\<rparr>"

definition reflectivity :: pydict where
  "reflectivity =
     [(''units'', PStr ''dBZ''),
      (''_FillValue'', PFloat (- 9999)),
      (''standard_name'', PStr ''equivalent_reflectivity_factor''),
      (''long_name'', PStr ''Reflectivity''),
      (''data'', PArr (NumArr [2, 3] [1, 2, 3, 4, 5, 6]))]"

definition rounded_reflectivity :: pydict where
  "rounded_reflectivity =
     [(''units'', PStr ''dBZ''),
      (''_FillValue'', PFloat (- 9999)),
      (''least_significant_digit'', PInt 2),
      (''standard_name'', PStr ''equivalent_reflectivity_factor''),
      (''long_name'', PStr ''Reflectivity''),
      (''data'', PArr (NumArr [2, 3] [1, 2, 3, 4, 5, 6]))]"

definition example_radar :: radar where
  "example_radar =
     \<lparr>time = [(''units'', PStr ''seconds since 2011-05-20T10:54:11Z''),
              (''long_name'', PStr ''time in seconds since volume start''),
              (''data'', PArr (NumArr [2] [1, 2]))],
      gate_range = [(''units'', PStr ''meters''), (''data'', PArr (NumArr [3] [0, 100, 200]))],
      radar_fields = [(''reflectivity'', reflectivity)],
      metadata = [(''instrument_name'', PStr ''xsapr'')],
      scan_type = ''ppi'',
      latitude = [(''units'', PStr ''degrees_north''), (''data'', PArr (NumArr [1] [36]))],
      longitude = [(''units'', PStr ''degrees_east''), (''data'', PArr (NumArr [1] [- 97]))],
      altitude = [(''units'', PStr ''meters''), (''data'', PArr (NumArr [1] [300]))],
      sweep_number = [(''data'', PArr (IntArr [1] [0]))],
      sweep_mode = [(''data'', PArr (StrArr [1, 3] 1 [''r'', ''h'', ''i'']))],
      fixed_angle = [(''data'', PArr (NumArr [1] [5]))],
      sweep_start_ray_index = [(''data'', PArr (IntArr [1] [0]))],
      sweep_end_ray_index = [(''data'', PArr (IntArr [1] [1]))],
      azimuth = [(''data'', PArr (NumArr [2] [0, 1]))],
      elevation = [(''data'', PArr (NumArr [2] [5, 5]))],
      instrument_parameters = None,
      radar_calibration = None,
      altitude_agl = None, scan_rate = None, antenna_transition = None,
      target_scan_rate = None, rotation = None, tilt = None, roll = None, drift = None,
      heading = None, pitch = None, georefs_applied = None,
      ngates = 3, nsweeps = 1\<rparr>"


text \<open>
  A file of the uniform layout with the twelve mandatory variables and one field
  \<open>DBZ\<close>; no variable carries a \<open>meta_group\<close> attribute.
\<close>

definition plain_var :: "string list \<Rightarrow> ndarray \<Rightarrow> ncvar" where
  "plain_var dims a =
     \<lparr>v_dimensions = dims, v_least_significant_digit = None, v_attrs = [], v_data = Some a\<rparr>"

definition example_file :: dataset where
  "example_file =
     \<lparr>ds_dimensions = [(''time'', None), (''range'', Some 3), (''sweep'', Some 1),
                       (''string_length'', Some 3)],
      ds_attrs = [(''Conventions'', PStr ''CF/Radial'')],
      ds_variables =
        [(''time'', \<lparr>v_dimensions = [''time''], v_least_significant_digit = None,
                     v_attrs = [(''units'', PStr ''seconds since 2011-05-20T10:54:11Z'')],
                     v_data = Some (NumArr [2] [1, 2])\<rparr>),
         (''range'', plain_var [''range''] (NumArr [3] [0, 100, 200])),
         (''azimuth'', plain_var [''time''] (NumArr [2] [0, 1])),
         (''elevation'', plain_var [''time''] (NumArr [2] [5, 5])),
         (''DBZ'', \<lparr>v_dimensions = [''time'', ''range''], v_least_significant_digit = None,
                    v_attrs = [(''units'', PStr ''dBZ'')],
                    v_data = Some (NumArr [2, 3] [1, 2, 3, 4, 5, 6])\<rparr>),
         (''sweep_number'', plain_var [''sweep''] (IntArr [1] [0])),
         (''fixed_angle'', plain_var [''sweep''] (NumArr [1] [5])),
         (''sweep_start_ray_index'', plain_var [''sweep''] (IntArr [1] [0])),
         (''sweep_end_ray_index'', plain_var [''sweep''] (IntArr [1] [1])),
         (''sweep_mode'', plain_var [''sweep'', ''string_length''] (StrArr [1, 3] 1 [''r'', ''h'', ''i''])),
         (''latitude'', plain_var [] (NumArr [1] [36])),
         (''longitude'', plain_var [] (NumArr [1] [- 97])),
         (''altitude'', plain_var [] (NumArr [1] [300]))],
      ds_open = True\<rparr>"

text \<open>
  The spec's reading of the test: every ray of the sweep \<open>[ss, se)\<close> has the same gate
  count.
\<close>

definition rays_identical :: "nat list \<Rightarrow> nat \<Rightarrow> nat \<Rightarrow> bool" where
  "rays_identical ray_len ss se =
     (case py_slice ss se ray_len of [] \<Rightarrow> True | g # gs \<Rightarrow> list_all (\<lambda>h. h = g) gs)"

text \<open>The six sweep modes of the CF/Radial convention that the reader matches exactly.\<close>

definition exact_modes :: "string list" where
  "exact_modes = [''rhi'', ''vertical_pointing'', ''azimuth_surveillance'',
                  ''elevation_surveillance'', ''manual_ppi'', ''manual_rhi'']"

section \<open>Exceptions and loops\<close>

lemma ebind_Inr_iff: "ebind m f = Inr y \<longleftrightarrow> (\<exists>x. m = Inr x \<and> f x = Inr y)"
  by (cases m) (simp_all add: ebind_def)

lemma ebind_fails: "(\<And>x. \<exists>err. f x = Inl err) \<Longrightarrow> \<exists>err. ebind m f = Inl err"
  by (cases m) (simp_all add: ebind_def)

lemma ebind_InrE:
  assumes "ebind m f = Inr y"
  obtains x where "m = Inr x" "f x = Inr y"
  using assms by (cases m) (simp_all add: ebind_def)

text \<open>A property kept by every step of a loop holds when the loop returns.\<close>

lemma efold_invariant:
  assumes "\<And>x s s'. P s \<Longrightarrow> f x s = Inr s' \<Longrightarrow> P s'"
  shows "P s \<Longrightarrow> efold f xs s = Inr s' \<Longrightarrow> P s'"
proof (induction xs arbitrary: s)
  case Nil
  then show ?case by simp
next
  case (Cons x xs)
  from Cons.prems(2) obtain s1 where "f x s = Inr s1" "efold f xs s1 = Inr s'"
    by (auto simp: ebind_Inr_iff)
  then show ?case using assms Cons.IH Cons.prems(1) by blast
qed

section \<open>Properties of the scan type\<close>

text \<open>\<open>py_in\<close> is the substring relation.\<close>

lemma py_in_iff: "py_in p s \<longleftrightarrow> (\<exists>a b. s = a @ p @ b)"
proof (induction s)
  case Nil
  then show ?case by auto
next
  case (Cons c cs)
  show ?case
  proof
    assume "py_in p (c # cs)"
    then consider "take (length p) (c # cs) = p" | "py_in p cs" by auto
    then show "\<exists>a b. c # cs = a @ p @ b"
    proof cases
      case 1
      then have "c # cs = [] @ p @ drop (length p) (c # cs)"
        by (metis append_Nil append_take_drop_id)
      then show ?thesis by blast
    next
      case 2
      then obtain a b where "cs = a @ p @ b" using Cons.IH by blast
      then have "c # cs = (c # a) @ p @ b" by simp
      then show ?thesis by blast
    qed
  next
    assume "\<exists>a b. c # cs = a @ p @ b"
    then obtain a b where ab: "c # cs = a @ p @ b" by blast
    show "py_in p (c # cs)"
    proof (cases a)
      case Nil
      then have "take (length p) (c # cs) = p" using ab by simp
      then show ?thesis by simp
    next
      case (Cons x xs)
      then have "cs = xs @ p @ b" using ab by simp
      then show ?thesis using Cons.IH by auto
    qed
  qed
qed

lemma py_in_sector_sec: "py_in ''sector'' mode \<Longrightarrow> py_in ''sec'' mode"
proof -
  assume "py_in ''sector'' mode"
  then obtain a b where "mode = a @ ''sector'' @ b" using py_in_iff by blast
  then have "mode = a @ ''sec'' @ (''tor'' @ b)" by simp
  then show ?thesis using py_in_iff by blast
qed

lemma sector_not_exact: "py_in ''sector'' mode \<Longrightarrow> mode \<notin> set exact_modes"
  by (auto simp: exact_modes_def)

lemma derive_scan_type_fallback:
  "mode \<notin> set exact_modes \<Longrightarrow>
   derive_scan_type mode =
     (if py_in ''sur'' mode then ''ppi''
      else if py_in ''sec'' mode then ''sector''
      else if py_in ''rhi'' mode then ''rhi''
      else ''other'')"
  by (simp add: derive_scan_type_def exact_modes_def)

text \<open>
  Claim C4, as stated, fails: a mode string that contains \<open>sector\<close> and also
  \<open>sur\<close> is read as \<open>ppi\<close>, because the \<open>sur\<close> test comes first in the chain.
\<close>

theorem scan_type_sector_counterexample:
  "py_in ''sector'' ''sector_surveillance'' \<and>
   derive_scan_type ''sector_surveillance'' = ''ppi'' \<and>
   derive_scan_type ''sector_surveillance'' \<noteq> ''sector''"
  by (simp add: derive_scan_type_def)

text \<open>
  Claim C4, amended: the six convention strings map exactly (\<open>azimuth_surveillance\<close>
  and \<open>manual_ppi\<close> to \<open>ppi\<close>; \<open>rhi\<close>, \<open>elevation_surveillance\<close> and
  \<open>manual_rhi\<close> to \<open>rhi\<close>; \<open>vertical_pointing\<close> to \<open>vpt\<close>); any other
  string takes the first matching substring test in the order \<open>sur\<close> (ppi),
  \<open>sec\<close> (sector), \<open>rhi\<close> (rhi), and \<open>other\<close> when none matches.  In particular a
  string containing \<open>sector\<close> but not \<open>sur\<close> yields \<open>sector\<close>, and a string
  outside the six that contains none of the three substrings yields \<open>other\<close>.
\<close>

theorem derive_scan_type_rules:
  "derive_scan_type ''azimuth_surveillance'' = ''ppi'' \<and>
   derive_scan_type ''manual_ppi'' = ''ppi'' \<and>
   derive_scan_type ''rhi'' = ''rhi'' \<and>
   derive_scan_type ''elevation_surveillance'' = ''rhi'' \<and>
   derive_scan_type ''manual_rhi'' = ''rhi'' \<and>
   derive_scan_type ''vertical_pointing'' = ''vpt'' \<and>
   (mode \<notin> set exact_modes \<longrightarrow>
      derive_scan_type mode =
        (if py_in ''sur'' mode then ''ppi''
         else if py_in ''sec'' mode then ''sector''
         else if py_in ''rhi'' mode then ''rhi''
         else ''other'')) \<and>
   (py_in ''sector'' mode \<and> \<not> py_in ''sur'' mode \<longrightarrow> derive_scan_type mode = ''sector'') \<and>
   (mode \<notin> set exact_modes \<and> \<not> py_in ''sur'' mode \<and> \<not> py_in ''sec'' mode \<and>
      \<not> py_in ''rhi'' mode \<longrightarrow> derive_scan_type mode = ''other'')"
proof -
  have exact: "derive_scan_type ''azimuth_surveillance'' = ''ppi''"
      "derive_scan_type ''manual_ppi'' = ''ppi''"
      "derive_scan_type ''rhi'' = ''rhi''"
      "derive_scan_type ''elevation_surveillance'' = ''rhi''"
      "derive_scan_type ''manual_rhi'' = ''rhi''"
      "derive_scan_type ''vertical_pointing'' = ''vpt''"
    by (simp_all add: derive_scan_type_def)
  have sector: "derive_scan_type mode = ''sector''"
    if "py_in ''sector'' mode" "\<not> py_in ''sur'' mode"
    using that derive_scan_type_fallback [OF sector_not_exact] py_in_sector_sec by simp
  show ?thesis
    using exact sector derive_scan_type_fallback by simp
qed

theorem derive_scan_type_rules_witness:
  "''idle'' \<notin> set exact_modes \<and> \<not> py_in ''sur'' ''idle'' \<and> \<not> py_in ''sec'' ''idle'' \<and>
   \<not> py_in ''rhi'' ''idle'' \<and> derive_scan_type ''idle'' = ''other'' \<and>
   py_in ''sector'' ''ppi_sector'' \<and> \<not> py_in ''sur'' ''ppi_sector'' \<and>
   derive_scan_type ''ppi_sector'' = ''sector''"
  using derive_scan_type_rules [of "''idle''"] derive_scan_type_rules [of "''ppi_sector''"]
  by (simp add: exact_modes_def)

section \<open>Properties of the ray-reshape helper\<close>

text \<open>
  Whenever the helper returns, the array has \<open>nrays\<close> rows of \<open>maxgates\<close> cells.
\<close>

lemma reshape2_rows:
  "length xs = n * w \<Longrightarrow> length (reshape2 n w xs) = n \<and>
     (\<forall>i < n. length (reshape2 n w xs ! i) = w)"
proof (induction n arbitrary: xs)
  case 0
  then show ?case by simp
next
  case (Suc n)
  then have "length (drop w xs) = n * w" by simp
  with Suc.IH have ih: "length (reshape2 n w (drop w xs)) = n"
    "\<forall>i < n. length (reshape2 n w (drop w xs) ! i) = w" by blast+
  have "length (take w xs) = w" using Suc.prems by simp
  then show ?case using ih by (auto simp: nth_Cons split: nat.splits)
qed

lemma bulk_assign_grid:
  assumes "bulk_assign tr maxgates ss se n rle vals = Inr tr'"
      and "length tr = nrays" "list_all (\<lambda>row. length row = maxgates) tr"
      and "\<forall>i < n. length (vals ! i) = rle"
  shows "length tr' = nrays \<and> list_all (\<lambda>row. length row = maxgates) tr'"
proof -
  let ?lo = "min ss (length tr)" and ?hi = "min se (length tr)" and ?w = "min rle maxgates"
  from assms(1) have ok: "(n = ?hi - ?lo \<or> n = 1) \<and> (rle = ?w \<or> rle = 1)"
    by (auto simp: bulk_assign_def Let_def split: if_splits)
  from assms(1) ok have tr': "tr' = map (\<lambda>(i, row).
                  if ?lo \<le> i \<and> i < ?hi then
                    (let v = vals ! (if n = ?hi - ?lo then i - ?lo else 0)
                     in (if rle = ?w then v else replicate ?w (hd v)) @ drop ?w row)
                  else row)
                (enumerate 0 tr)"
    by (auto simp: bulk_assign_def Let_def split: if_splits)
  have len: "length tr' = nrays" using tr' assms(2) by simp
  have row: "length (tr' ! i) = maxgates" if i: "i < length tr" for i
  proof -
    define c where "c \<longleftrightarrow> ?lo \<le> i \<and> i < ?hi"
    define j where "j = (if n = ?hi - ?lo then i - ?lo else 0)"
    have old: "length (tr ! i) = maxgates"
      using assms(3) i by (simp add: list_all_length)
    have nth: "tr' ! i = (if c then
                    (if rle = ?w then vals ! j else replicate ?w (hd (vals ! j))) @ drop ?w (tr ! i)
                  else tr ! i)"
      using i unfolding tr' c_def j_def by (simp add: nth_enumerate_eq Let_def)
    show ?thesis
    proof (cases c)
      case False
      then have "tr' ! i = tr ! i" using nth by simp
      then show ?thesis using old by simp
    next
      case True
      then have eq: "tr' ! i =
          (if rle = ?w then vals ! j else replicate ?w (hd (vals ! j))) @ drop ?w (tr ! i)"
        using nth by simp
      have "j < n" using True ok unfolding c_def j_def by auto
      then have v: "length (vals ! j) = rle" using assms(4) by blast
      show ?thesis
      proof (cases "rle = ?w")
        case True
        then have "rle \<le> maxgates" by simp
        moreover have "tr' ! i = vals ! j @ drop ?w (tr ! i)"
          unfolding eq by (simp only: True [symmetric] if_True refl)
        then have "length (tr' ! i) = rle + (length (tr ! i) - ?w)" using v by simp
        ultimately show ?thesis using old True by simp
      next
        case False
        have "tr' ! i = replicate ?w (hd (vals ! j)) @ drop ?w (tr ! i)"
          unfolding eq by (simp only: False if_False)
        then have "length (tr' ! i) = ?w + (length (tr ! i) - ?w)" by simp
        then show ?thesis using old by simp
      qed
    qed
  qed
  have "list_all (\<lambda>row. length row = maxgates) tr'"
    using row len assms(2) by (simp add: list_all_length)
  then show ?thesis using len by simp
qed

lemma ray_assign_grid:
  assumes "ray_assign tr maxgates r len vals = Inr tr'"
      and "length tr = nrays" "list_all (\<lambda>row. length row = maxgates) tr"
  shows "length tr' = nrays \<and> list_all (\<lambda>row. length row = maxgates) tr'"
proof -
  let ?w = "min len maxgates"
  from assms(1) have r: "r < length tr"
    by (auto simp: ray_assign_def Let_def split: if_splits)
  then have old: "length (tr ! r) = maxgates" using assms(3) by (simp add: list_all_length)
  from assms(1) r obtain new where tr': "tr' = tr[r := new @ drop ?w (tr ! r)]" and
    new: "length new = ?w"
    by (auto simp: ray_assign_def Let_def split: if_splits)
  have "length (new @ drop ?w (tr ! r)) = maxgates" using new old by simp
  then show ?thesis
    using assms(2,3) r unfolding tr'
    by (auto simp: list_all_length nth_list_update)
qed

lemma ragged_ray_grid:
  assumes "ragged_ray data ray_len maxgates ray_start_index ss rn tr = Inr tr'"
      and "length tr = nrays \<and> list_all (\<lambda>row. length row = maxgates) tr"
  shows "length tr' = nrays \<and> list_all (\<lambda>row. length row = maxgates) tr'"
  using assms
  by (auto simp: ragged_ray_def ebind_Inr_iff dest: ray_assign_grid)

lemma sweep_step_grid:
  assumes "sweep_step data sweeps sweepe ray_len maxgates ray_start_index k (tr, cp) = Inr (tr', cp')"
      and "length tr = nrays \<and> list_all (\<lambda>row. length row = maxgates) tr"
  shows "length tr' = nrays \<and> list_all (\<lambda>row. length row = maxgates) tr'"
proof -
  from assms(1) obtain ss se rle where
    body: "(if uniform_check ray_len ss se rle then
         (if se < ss then Inl ValueError
          else
            (let n = se - ss;
                 chunk = py_slice cp (cp + n * rle) data
             in if length chunk \<noteq> n * rle then Inl ValueError
                else ebind (bulk_assign tr maxgates ss se n rle (reshape2 n rle chunk))
                       (\<lambda>tr. Inr (tr, cp + n * rle))))
       else
         ebind (efold (ragged_ray data ray_len maxgates ray_start_index ss) [0 ..< se - ss] tr)
           (\<lambda>tr. Inr (tr, cp + sum_list (py_slice ss se ray_len)))) = Inr (tr', cp')"
    by (auto simp: sweep_step_def ebind_Inr_iff)
  show ?thesis
  proof (cases "uniform_check ray_len ss se rle")
    case True
    let ?n = "se - ss"
    let ?chunk = "py_slice cp (cp + ?n * rle) data"
    from body True have len: "length ?chunk = ?n * rle" and
      ba: "bulk_assign tr maxgates ss se ?n rle (reshape2 ?n rle ?chunk) = Inr tr'"
      by (auto simp: Let_def ebind_Inr_iff split: if_splits)
    have "\<forall>i < ?n. length (reshape2 ?n rle ?chunk ! i) = rle"
      using reshape2_rows [OF len] by blast
    then show ?thesis using bulk_assign_grid [OF ba] assms(2) by blast
  next
    case False
    with body have
      "efold (ragged_ray data ray_len maxgates ray_start_index ss) [0 ..< se - ss] tr = Inr tr'"
      by (auto simp: ebind_Inr_iff)
    then show ?thesis
      by (rule efold_invariant [where P = "\<lambda>tr. length tr = nrays \<and> list_all (\<lambda>row. length row = maxgates) tr", rotated 2])
         (auto dest: ragged_ray_grid simp: assms(2))
  qed
qed

lemma stream_to_2d_grid:
  assumes "stream_to_2d data sweeps sweepe ray_len maxgates nrays ray_start_index = Inr time_range"
  shows "length time_range = nrays \<and> list_all (\<lambda>row. length row = maxgates) time_range"
proof -
  from assms obtain cp where
    loop: "efold (sweep_step data sweeps sweepe ray_len maxgates ray_start_index)
             [0 ..< length sweepe] (replicate nrays (replicate maxgates sentinel), 0)
           = Inr (time_range, cp)"
    by (auto simp: stream_to_2d_def ebind_Inr_iff)
  have "(\<lambda>(tr, cp). length tr = nrays \<and> list_all (\<lambda>row. length row = maxgates) tr)
          (time_range, cp)"
  proof (rule efold_invariant [OF _ _ loop])
    show "(\<lambda>(tr, cp). length tr = nrays \<and> list_all (\<lambda>row. length row = maxgates) tr)
            (replicate nrays (replicate maxgates sentinel), 0)"
      by (simp add: list_all_length)
  next
    fix k s s'
    assume "(\<lambda>(tr, cp). length tr = nrays \<and> list_all (\<lambda>row. length row = maxgates) tr) s"
      and "sweep_step data sweeps sweepe ray_len maxgates ray_start_index k s = Inr s'"
    then show "(\<lambda>(tr, cp). length tr = nrays \<and> list_all (\<lambda>row. length row = maxgates) tr) s'"
      by (cases s, cases s') (auto dest: sweep_step_grid)
  qed
  then show ?thesis by simp
qed

text \<open>
  When the sweep lies inside the gate-count array and its rays have one gate count, the
  test of line 337 holds.
\<close>

lemma sum_list_all_eq: "list_all (\<lambda>h. h = g) gs \<Longrightarrow> sum_list gs = length gs * (g::nat)"
  by (induction gs) auto

lemma rays_identical_uniform_check:
  assumes "ss < se" "se \<le> length ray_len" "rays_identical ray_len ss se"
  shows "uniform_check ray_len ss se (ray_len ! ss)"
proof -
  have len: "length (py_slice ss se ray_len) = se - ss"
    using assms by (simp add: py_slice_def)
  then obtain g gs where sl: "py_slice ss se ray_len = g # gs"
    using assms(1) by (cases "py_slice ss se ray_len") auto
  have "g = py_slice ss se ray_len ! 0" using sl by simp
  also have "\<dots> = ray_len ! ss" using assms by (simp add: py_slice_def)
  finally have g: "g = ray_len ! ss" .
  have "list_all (\<lambda>h. h = g) gs" using assms(3) sl by (simp add: rays_identical_def)
  then have "sum_list gs = length gs * g" by (rule sum_list_all_eq)
  moreover have "se - ss = Suc (length gs)" using sl len by simp
  ultimately have "sum_list (py_slice ss se ray_len) = (se - ss) * g"
    using sl by simp
  then show ?thesis
    using assms(1) g by (simp add: uniform_check_def of_nat_diff mult.commute)
qed

text \<open>
  Claim C2 at the failing input: a sweep of three rays with gate counts 2, 1 and 3.
  The rays differ, yet the sum 6 equals the first count times the ray count, so the test
  holds and the sweep step takes the bulk branch, cutting the six values into three rows
  of two.
\<close>

theorem bulk_path_on_ragged_sweep:
  "\<not> rays_identical [2, 1, 3] 0 3 \<and>
   uniform_check [2, 1, 3] 0 3 ([2, 1, 3] ! 0) \<and>
   sweep_step [0, 1, 2, 3, 4, 5] [0] [3] [2, 1, 3] 3 [0, 2, 3] 0
     (replicate 3 (replicate 3 sentinel), 0)
   = Inr ([[0, 1, sentinel], [2, 3, sentinel], [4, 5, sentinel]], 6)"
  by (simp add: rays_identical_def sweep_step_def ebind_def py_get_def uniform_check_def
        py_slice_def bulk_assign_def numeral_3_eq_3 enumerate_eq_zip upt_conv_Cons)

text \<open>
  Claim C3 at the same input: ray 1 has one gate, so cell \<open>(1, 1)\<close> is covered by no
  ray's data, but the returned array holds the value 3 there (the first gate of ray 2),
  and row 2 holds \<open>4, 5\<close> and a sentinel where ray 2 has the gates \<open>3, 4, 5\<close>.
\<close>

theorem stream_to_2d_misplaces_ragged_sweep:
  "stream_to_2d [0, 1, 2, 3, 4, 5] [0] [3] [2, 1, 3] 3 3 [0, 2, 3]
     = Inr [[0, 1, - 9999], [2, 3, - 9999], [4, 5, - 9999]] \<and>
   [2, 1, 3] ! 1 = (1::nat) \<and> (3::real) \<noteq> sentinel"
  by (simp add: stream_to_2d_def sweep_step_def ebind_def py_get_def uniform_check_def
        py_slice_def bulk_assign_def sentinel_def numeral_3_eq_3 enumerate_eq_zip upt_conv_Cons)

text \<open>The two examples of the spec, on which the helper is right.\<close>

lemma stream_to_2d_uniform_example:
  "stream_to_2d (map real [0 ..< 24]) [0, 3] [3, 6] [4, 4, 4, 4, 4, 4] 4 6 [0, 4, 8, 12, 16, 20]
     = Inr [[0, 1, 2, 3], [4, 5, 6, 7], [8, 9, 10, 11],
            [12, 13, 14, 15], [16, 17, 18, 19], [20, 21, 22, 23]]"
  by code_simp

lemma stream_to_2d_ragged_example:
  "stream_to_2d [0, 1, 2, 3, 4, 5, 6, 7] [0] [2] [3, 5] 5 2 [0, 3]
     = Inr [[0, 1, 2, sentinel, sentinel], [3, 4, 5, 6, 7]]"
  by code_simp

section \<open>Properties of the variable-create helper\<close>

lemma update_fresh: "k \<notin> fst ` set al \<Longrightarrow> AList.update k v al = al @ [(k, v)]"
  by (induction al) auto

lemma set_all_attributes_fresh:
  assumes "distinct (map fst dic)"
      and "\<forall>k \<in> fst ` set dic. k \<notin> set handled_keys
             \<longrightarrow> k \<notin> fst ` set (v_attrs v)"
  shows "v_attrs (set_all_attributes dic v) =
           v_attrs v @ filter (\<lambda>(k, x). k \<notin> set handled_keys) dic"
  using assms
proof (induction dic arbitrary: v)
  case Nil
  then show ?case by (simp add: set_all_attributes_def)
next
  case (Cons p dic)
  obtain k x where p: "p = (k, x)" by (cases p)
  show ?case
  proof (cases "k \<in> set handled_keys")
    case True
    have "set_all_attributes (p # dic) v = set_all_attributes dic v"
      using True p by (simp add: set_all_attributes_def)
    moreover have "v_attrs (set_all_attributes dic v) =
           v_attrs v @ filter (\<lambda>(k, x). k \<notin> set handled_keys) dic"
      using Cons.prems by (intro Cons.IH) auto
    ultimately show ?thesis using True p by simp
  next
    case False
    then have fresh: "k \<notin> fst ` set (v_attrs v)" using Cons.prems(2) p by auto
    let ?v = "setncattr k x v"
    have va: "v_attrs ?v = v_attrs v @ [(k, x)]"
      using fresh by (simp add: setncattr_def update_fresh)
    have step: "set_all_attributes (p # dic) v = set_all_attributes dic ?v"
      using False p by (simp add: set_all_attributes_def)
    have "k \<notin> fst ` set dic" using Cons.prems(1) p by (auto simp: image_iff)
    then have "v_attrs (set_all_attributes dic ?v) =
           v_attrs ?v @ filter (\<lambda>(k, x). k \<notin> set handled_keys) dic"
      using Cons.prems va by (intro Cons.IH) auto
    then show ?thesis using step va False p by simp
  qed
qed

lemma set_all_attributes_other:
  "v_data (set_all_attributes dic v) = v_data v \<and> v_dimensions (set_all_attributes dic v) = v_dimensions v"
  unfolding set_all_attributes_def
  by (induction dic arbitrary: v) (auto simp: setncattr_def)

text \<open>What a successful call adds.\<close>

lemma create_ncvar_result:
  assumes "create_ncvar dic name dimensions ds = Inr ds'"
  shows "\<exists>d v. py_item dic ''data'' = Inr d \<and> \<not> has_key (ds_variables ds) name \<and>
           ds' = ds\<lparr>ds_variables := ds_variables ds @ [(name, v)]\<rparr> \<and>
           v_data v = Some (at_least_1d (data_array d)) \<and> v_dimensions v = dimensions"
  using assms
  by (auto simp: create_ncvar_def ebind_Inr_iff createVariable_def Let_def set_all_attributes_other
        setncattr_def delncattr_def
      split: if_splits option.splits)

text \<open>The definitions that evaluate the writer on a concrete record.\<close>

lemmas writer_defs = write_cfradial_def create_dimensions_def string_length_def
  createDimension_def has_key_def new_dataset_def write_global_attributes_def global_variables_def
  synthesized_history_def ds_setncattr_def write_arm_time_variables_def
  write_standard_variables_def write_fields_def write_sweep_parameters_def
  write_instrument_parameters_def write_radar_calibration_def write_location_def
  write_time_coverage_def write_time_reference_def wants_time_reference_def
  write_global_variables_def metadata_string_variable_def write_georeference_def close_def
  create_all_def optional_def create_ncvar_def createVariable_def setncattr_def delncattr_def
  set_all_attributes_def handled_keys_def data_array_def at_least_1d_def
  ebind_def py_item_def str_item_def first_num_def last_num_def py_get_def py_last_def arr_size_def
  calib_sizes_def Let_def

text \<open>
  When the attributed array (a dictionary, so its keys are distinct) has
  \<open>long_name\<close>, \<open>units\<close> and \<open>_FillValue\<close> and no rounding hint, the variable
  that \<^verbatim>\<open>_create_ncvar\<close> creates has exactly these three attributes first, in this
  order (the fill value, set by the file layer at creation, is deleted and set again
  after the other two), followed by all remaining entries of the dictionary.
\<close>

lemma create_ncvar_order_without_hint:
  assumes "create_ncvar dic name dimensions ds = Inr ds'"
      and "distinct (map fst dic)"
      and "map_of dic ''long_name'' = Some lname"
      and "map_of dic ''units'' = Some un"
      and "map_of dic ''_FillValue'' = Some fv"
      and "map_of dic ''least_significant_digit'' = None"
  shows "\<exists>v. map_of (ds_variables ds') name = Some v \<and>
             v_attrs v = [(''long_name'', lname), (''units'', un), (''_FillValue'', fv)]
                         @ filter (\<lambda>(k, x). k \<notin> set handled_keys) dic"
proof -
  let ?v3 = "\<lparr>v_dimensions = dimensions,
              v_least_significant_digit = None,
              v_attrs = [(''long_name'', lname), (''units'', un), (''_FillValue'', fv)],
              v_data = None\<rparr>"
  let ?v5 = "(set_all_attributes dic ?v3)\<lparr>v_data := Some (at_least_1d (data_array (the (map_of dic ''data''))))\<rparr>"
  have fresh: "\<not> has_key (ds_variables ds) name"
    using create_ncvar_result [OF assms(1)] by blast
  have ds': "ds' = ds\<lparr>ds_variables := ds_variables ds @ [(name, ?v5)]\<rparr>"
    using assms(1,3,4,5,6)
    by (auto simp: create_ncvar_def ebind_Inr_iff createVariable_def Let_def py_item_def
          setncattr_def delncattr_def split: if_splits option.splits)
  have "v_attrs (set_all_attributes dic ?v3) =
          v_attrs ?v3 @ filter (\<lambda>(k, x). k \<notin> set handled_keys) dic"
    using assms(2) by (intro set_all_attributes_fresh) (auto simp: handled_keys_def)
  then have attrs: "v_attrs ?v5 = [(''long_name'', lname), (''units'', un), (''_FillValue'', fv)]
                         @ filter (\<lambda>(k, x). k \<notin> set handled_keys) dic"
    by simp
  have "map_of (ds_variables ds') name = Some ?v5"
    using fresh ds' by (simp add: has_key_def map_add_def)
  then show ?thesis using attrs by blast
qed

text \<open>
  Claim C8 at the failing input: a field dictionary with \<open>long_name\<close>, \<open>units\<close>,
  \<open>_FillValue\<close> and a rounding hint.  The file layer sets \<open>_FillValue\<close> and
  \<open>least_significant_digit\<close> at creation; lines 658--661 move only the fill value
  behind \<open>long_name\<close> and \<open>units\<close>, so the first attribute of the created
  variable is \<open>least_significant_digit\<close> and the three named attributes come second
  to fourth.
\<close>

theorem create_ncvar_rounding_hint_first:
  "map_of rounded_reflectivity ''long_name'' = Some (PStr ''Reflectivity'') \<and>
   map_of rounded_reflectivity ''units'' = Some (PStr ''dBZ'') \<and>
   map_of rounded_reflectivity ''_FillValue'' = Some (PFloat (- 9999)) \<and>
   (case create_ncvar rounded_reflectivity ''reflectivity'' [''time'', ''range'']
           \<lparr>ds_dimensions = [(''time'', None), (''range'', Some 3)], ds_attrs = [],
            ds_variables = [], ds_open = True\<rparr> of
      Inr ds \<Rightarrow> map (\<lambda>(name, v). (name, map fst (v_attrs v))) (ds_variables ds)
    | Inl err \<Rightarrow> [])
     = [(''reflectivity'',
         [''least_significant_digit'', ''long_name'', ''units'', ''_FillValue'',
          ''standard_name''])]"
  by (simp add: writer_defs rounded_reflectivity_def)

section \<open>The blocks of the writer extend the dataset\<close>

lemma extends_refl: "extends ds ds"
  by (simp add: extends_def)

lemma extends_trans: "extends a b \<Longrightarrow> extends b c \<Longrightarrow> extends a c"
  by (simp add: extends_def)

lemma create_ncvar_extends:
  assumes "create_ncvar dic name dimensions ds = Inr ds'"
  shows "extends ds ds'"
proof -
  obtain v where "ds' = ds\<lparr>ds_variables := ds_variables ds @ [(name, v)]\<rparr>"
    using create_ncvar_result [OF assms] by blast
  then show ?thesis by (simp add: extends_def map_add_def)
qed

lemma efold_extends:
  assumes "\<And>x s s'. f x s = Inr s' \<Longrightarrow> extends s s'"
  shows "efold f xs s = Inr s' \<Longrightarrow> extends s s'"
proof (induction xs arbitrary: s)
  case Nil
  then show ?case by (simp add: extends_refl)
next
  case (Cons x xs)
  then obtain s1 where "f x s = Inr s1" "efold f xs s1 = Inr s'"
    by (auto simp: ebind_Inr_iff)
  then show ?case using assms Cons.IH extends_trans by blast
qed

lemma create_all_extends: "create_all reqs ds = Inr ds' \<Longrightarrow> extends ds ds'"
  unfolding create_all_def
  by (erule efold_extends [rotated]) (auto dest: create_ncvar_extends)

lemma createDimension_extends: "createDimension name n ds = Inr ds' \<Longrightarrow> extends ds ds'"
  by (auto simp: createDimension_def extends_def split: if_splits)

lemma create_dimensions_extends: "create_dimensions radar ds = Inr ds' \<Longrightarrow> extends ds ds'"
  by (auto simp: create_dimensions_def ebind_Inr_iff
        dest!: createDimension_extends intro: extends_trans)

lemma write_arm_time_variables_extends:
  "write_arm_time_variables e radar arm ds = Inr ds' \<Longrightarrow> extends ds ds'"
  by (auto simp: write_arm_time_variables_def ebind_Inr_iff Let_def extends_refl
        split: if_splits dest: create_all_extends)

lemma write_standard_variables_extends:
  "write_standard_variables radar ds = Inr ds' \<Longrightarrow> extends ds ds'"
  unfolding write_standard_variables_def by (rule create_all_extends)

lemma write_fields_extends: "write_fields radar ds = Inr ds' \<Longrightarrow> extends ds ds'"
  unfolding write_fields_def by (rule create_all_extends)

lemma write_sweep_parameters_extends:
  "write_sweep_parameters radar ds = Inr ds' \<Longrightarrow> extends ds ds'"
  unfolding write_sweep_parameters_def by (rule create_all_extends)

lemma write_instrument_parameters_extends:
  "write_instrument_parameters radar ds = Inr ds' \<Longrightarrow> extends ds ds'"
  by (auto simp: write_instrument_parameters_def ebind_Inr_iff extends_refl
        split: option.splits dest!: create_all_extends createDimension_extends
        intro: extends_trans)

lemma write_radar_calibration_extends:
  "write_radar_calibration radar ds = Inr ds' \<Longrightarrow> extends ds ds'"
  by (auto simp: write_radar_calibration_def ebind_Inr_iff extends_refl
        split: option.splits dest!: create_all_extends createDimension_extends
        intro: extends_trans)

lemma write_location_extends: "write_location radar ds = Inr ds' \<Longrightarrow> extends ds ds'"
  by (auto simp: write_location_def ebind_Inr_iff Let_def dest: create_all_extends)

lemma write_time_coverage_extends:
  "write_time_coverage e radar ds = Inr ds' \<Longrightarrow> extends ds ds'"
  by (auto simp: write_time_coverage_def ebind_Inr_iff Let_def dest: create_all_extends)

lemma write_time_reference_extends:
  "write_time_reference radar tr ds = Inr ds' \<Longrightarrow> extends ds ds'"
  by (auto simp: write_time_reference_def ebind_Inr_iff Let_def extends_refl
        split: if_splits dest: create_ncvar_extends)

lemma write_global_variables_extends:
  "write_global_variables radar ds = Inr ds' \<Longrightarrow> extends ds ds'"
  by (auto simp: write_global_variables_def ebind_Inr_iff Let_def dest: create_all_extends)

lemma write_georeference_extends:
  "write_georeference radar ds = Inr ds' \<Longrightarrow> extends ds ds'"
  unfolding write_georeference_def by (rule create_all_extends)

lemma close_extends: "extends ds (close ds)"
  by (simp add: extends_def close_def)

section \<open>Properties of the writer\<close>

lemma calib_sizes_only_index_time:
  assumes "list_all (\<lambda>(k, d). k \<in> set [''r_calib_index'', ''r_calib_time'']) cal"
  shows "calib_sizes cal = Inr []"
proof -
  have "filter (\<lambda>(k, d). k \<notin> set [''r_calib_index'', ''r_calib_time'']) cal = []"
    using assms by (induction cal) auto
  then show ?thesis by (simp add: calib_sizes_def)
qed

lemma write_radar_calibration_fails:
  assumes "radar_calibration radar = Some cal"
      and "list_all (\<lambda>(k, d). k \<in> set [''r_calib_index'', ''r_calib_time'']) cal"
  shows "write_radar_calibration radar ds = Inl IndexError"
  using assms calib_sizes_only_index_time [OF assms(2)]
  by (simp add: write_radar_calibration_def ebind_def py_get_def)

text \<open>
  Claim C7: when \<^verbatim>\<open>radar_calibration\<close> is set and holds no entry other than
  \<^verbatim>\<open>r_calib_index\<close> and \<^verbatim>\<open>r_calib_time\<close>, the writer ends with an exception and
  returns no closed dataset: the list of sizes of line 498 is empty, its first element
  does not exist, and the calibration block raises IndexError on every dataset it is
  given; no later block runs.
\<close>

theorem write_cfradial_calibration_error:
  assumes "radar_calibration radar = Some cal"
      and "list_all (\<lambda>(k, d). k \<in> set [''r_calib_index'', ''r_calib_time'']) cal"
  shows "(\<exists>err. write_cfradial e radar time_reference arm_time_variables = Inl err) \<and>
         (\<forall>ds. write_radar_calibration radar ds = Inl IndexError)"
proof -
  have cal: "write_radar_calibration radar ds = Inl IndexError" for ds
    using assms by (rule write_radar_calibration_fails)
  have "\<exists>err. write_cfradial e radar time_reference arm_time_variables = Inl err"
    unfolding write_cfradial_def
    apply (rule ebind_fails)
    apply (rule ebind_fails)
    apply (rule ebind_fails)
    apply (rule ebind_fails)
    apply (rule ebind_fails)
    apply (rule ebind_fails)
    apply (simp add: cal ebind_def)
    done
  then show ?thesis using cal by blast
qed

theorem write_cfradial_calibration_error_witness:
  "radar_calibration (example_radar\<lparr>radar_calibration :=
       Some [(''r_calib_index'', [(''data'', PArr (IntArr [2] [0, 0]))])]\<rparr>)
     = Some [(''r_calib_index'', [(''data'', PArr (IntArr [2] [0, 0]))])] \<and>
   list_all (\<lambda>(k, d). k \<in> set [''r_calib_index'', ''r_calib_time''])
     [(''r_calib_index'', [(''data'', PArr (IntArr [2] [0, 0]))])] \<and>
   (\<exists>err. write_cfradial example_env (example_radar\<lparr>radar_calibration :=
       Some [(''r_calib_index'', [(''data'', PArr (IntArr [2] [0, 0]))])]\<rparr>) None False = Inl err)"
  using write_cfradial_calibration_error
    [of "example_radar\<lparr>radar_calibration :=
           Some [(''r_calib_index'', [(''data'', PArr (IntArr [2] [0, 0]))])]\<rparr>"
        "[(''r_calib_index'', [(''data'', PArr (IntArr [2] [0, 0]))])]" example_env None False]
  by simp

lemma map_of_fold_delete:
  "map_of (fold AList.delete ks m) k = (if k \<in> set ks then None else map_of m k)"
  by (induction ks arbitrary: m) (simp_all add: delete_conv')

lemma ds_setncattr_lookup: "map_of (ds_attrs (ds_setncattr k x ds)) k = Some x"
  by (simp add: ds_setncattr_def update_conv')

lemma history_kept: "map_of (fold AList.delete global_variables m) ''history'' = map_of m ''history''"
  by (simp add: map_of_fold_delete global_variables_def)

lemma history_written:
  "map_of (ds_attrs (write_global_attributes e radar ds)) ''history'' =
     Some (case map_of (metadata radar) ''history'' of
             Some h \<Rightarrow> h | None \<Rightarrow> PStr (synthesized_history e))"
proof (cases "map_of (metadata radar) ''history''")
  case None
  then show ?thesis
    unfolding write_global_attributes_def Let_def history_kept
    by (simp add: ds_setncattr_lookup)
next
  case (Some h)
  then show ?thesis
    unfolding write_global_attributes_def Let_def history_kept
    by (simp add: ds_setncattr_lookup)
qed

lemma write_cfradial_stages:
  assumes "write_cfradial e radar time_reference arm_time_variables = Inr ds"
  shows "\<exists>ds1 ds9 ds10.
           create_dimensions radar new_dataset = Inr ds1 \<and>
           extends (write_global_attributes e radar ds1) ds9 \<and>
           write_time_reference radar time_reference ds9 = Inr ds10 \<and>
           extends ds10 ds"
  using assms unfolding write_cfradial_def
  apply (elim ebind_InrE)
  subgoal premises p for ds1 ds2 ds3 ds4 ds5 ds6 ds7 ds8 ds9 ds10 ds11 ds12
  proof -
    have a: "extends (write_global_attributes e radar ds1) ds2"
      using p(2) by (rule write_arm_time_variables_extends)
    have b: "extends ds2 ds3" using p(3) by (rule write_standard_variables_extends)
    have c: "extends ds3 ds4" using p(4) by (rule write_fields_extends)
    have d: "extends ds4 ds5" using p(5) by (rule write_sweep_parameters_extends)
    have f: "extends ds5 ds6" using p(6) by (rule write_instrument_parameters_extends)
    have g: "extends ds6 ds7" using p(7) by (rule write_radar_calibration_extends)
    have h: "extends ds7 ds8" using p(8) by (rule write_location_extends)
    have i: "extends ds8 ds9" using p(9) by (rule write_time_coverage_extends)
    have k: "extends ds10 ds11" using p(11) by (rule write_global_variables_extends)
    have l: "extends ds11 ds12" using p(12) by (rule write_georeference_extends)
    have m: "ds = close ds12" using p(13) by simp
    have upto9: "extends (write_global_attributes e radar ds1) ds9"
      by (rule extends_trans [OF a], rule extends_trans [OF b], rule extends_trans [OF c],
          rule extends_trans [OF d], rule extends_trans [OF f], rule extends_trans [OF g],
          rule extends_trans [OF h], rule i)
    have from10: "extends ds10 ds"
      unfolding m
      by (rule extends_trans [OF k], rule extends_trans [OF l], rule close_extends)
    show ?thesis using p(1) p(10) upto9 from10 by blast
  qed
  done

text \<open>
  Claim C9, amended: whenever the writer returns, the global attribute \<open>history\<close>
  of the file is the string
  \<open>created by <user> on <host> at <iso-timestamp> using Py-ART\<close> when the metadata of
  the record has no \<open>history\<close> entry, and the value of that entry otherwise.
\<close>

theorem write_cfradial_history:
  assumes "write_cfradial e radar time_reference arm_time_variables = Inr ds"
  shows "(map_of (metadata radar) ''history'' = None \<longrightarrow>
            map_of (ds_attrs ds) ''history'' =
              Some (PStr (''created by '' @ getuser e @ '' on '' @ node e @ '' at ''
                          @ now_isoformat e @ '' using Py-ART''))) \<and>
         (\<forall>h. map_of (metadata radar) ''history'' = Some h \<longrightarrow>
            map_of (ds_attrs ds) ''history'' = Some h)"
proof -
  obtain ds1 ds9 ds10 where
    "extends (write_global_attributes e radar ds1) ds9"
    "write_time_reference radar time_reference ds9 = Inr ds10"
    "extends ds10 ds"
    using write_cfradial_stages [OF assms] by blast
  then have "ds_attrs ds = ds_attrs (write_global_attributes e radar ds1)"
    using write_time_reference_extends by (fastforce simp: extends_def)
  then show ?thesis
    by (simp add: history_written synthesized_history_def)
qed

text \<open>
  Claim C9, as stated, fails: the synthesized string ends in \<open>using Py-ART\<close>, which
  the claimed format does not have.
\<close>

theorem history_format_counterexample:
  "map_of (metadata example_radar) ''history'' = None \<and>
   (case write_cfradial example_env example_radar None False of
      Inr ds \<Rightarrow> map_of (ds_attrs ds) ''history'' | Inl err \<Rightarrow> None)
     = Some (PStr ''created by alice on radar1 at 2014-03-01T12:00:00 using Py-ART'') \<and>
   ''created by alice on radar1 at 2014-03-01T12:00:00 using Py-ART''
     \<noteq> ''created by '' @ getuser example_env @ '' on '' @ node example_env @ '' at ''
          @ now_isoformat example_env"
  by (simp add: writer_defs example_env_def example_radar_def reflectivity_def)

text \<open>The writer succeeds on the small radar volume.\<close>

lemma example_radar_written:
  "\<exists>ds. write_cfradial example_env example_radar None False = Inr ds"
  by (simp add: writer_defs example_env_def example_radar_def reflectivity_def)

lemma example_radar_with_history_written:
  "\<exists>ds. write_cfradial example_env
           (example_radar\<lparr>metadata := [(''history'', PStr ''made by hand'')]\<rparr>) None False = Inr ds"
  by (simp add: writer_defs example_env_def example_radar_def reflectivity_def)

theorem write_cfradial_history_witness:
  "(\<exists>ds. write_cfradial example_env example_radar None False = Inr ds \<and>
         map_of (metadata example_radar) ''history'' = None \<and>
         map_of (ds_attrs ds) ''history'' =
           Some (PStr ''created by alice on radar1 at 2014-03-01T12:00:00 using Py-ART'')) \<and>
   (\<exists>ds. write_cfradial example_env
           (example_radar\<lparr>metadata := [(''history'', PStr ''made by hand'')]\<rparr>) None False = Inr ds \<and>
         map_of (metadata (example_radar\<lparr>metadata := [(''history'', PStr ''made by hand'')]\<rparr>))
           ''history'' = Some (PStr ''made by hand'') \<and>
         map_of (ds_attrs ds) ''history'' = Some (PStr ''made by hand''))"
proof -
  obtain ds1 where w1: "write_cfradial example_env example_radar None False = Inr ds1"
    using example_radar_written by blast
  obtain ds2 where w2: "write_cfradial example_env
           (example_radar\<lparr>metadata := [(''history'', PStr ''made by hand'')]\<rparr>) None False = Inr ds2"
    using example_radar_with_history_written by blast
  have m1: "map_of (metadata example_radar) ''history'' = None"
    by (simp add: example_radar_def)
  have "map_of (ds_attrs ds1) ''history'' =
           Some (PStr ''created by alice on radar1 at 2014-03-01T12:00:00 using Py-ART'')"
    using write_cfradial_history [OF w1] m1 by (simp add: example_env_def)
  moreover have "map_of (ds_attrs ds2) ''history'' = Some (PStr ''made by hand'')"
    using write_cfradial_history [OF w2] by simp
  ultimately show ?thesis using w1 w2 m1 by auto
qed

text \<open>The array that \<^verbatim>\<open>_create_ncvar\<close> writes for a string holds the string's text.\<close>

lemma string_data_text:
  "char_array (at_least_1d (data_array (PArr (np_array (PStr s))))) \<and>
   arr_text (at_least_1d (data_array (PArr (np_array (PStr s))))) = s"
proof (cases "length s \<le> 1")
  case True
  then have "max 1 (length s) = 1" by simp
  then show ?thesis by (simp add: data_array_def at_least_1d_def)
next
  case False
  then have "max 1 (length s) = length s" "length s \<noteq> 1" by simp_all
  then show ?thesis
    by (simp add: data_array_def at_least_1d_def concat_map_singleton)
qed

text \<open>
  The time reference is wanted when the caller forces it, or when the caller leaves the
  choice open and the first time value is not zero.
\<close>

lemma wants_time_reference_cases:
  "wants_time_reference radar time_reference = Inr True \<longleftrightarrow>
     time_reference = Some True \<or>
     (time_reference = None \<and>
      (\<exists>tdata t0. py_item (time radar) ''data'' = Inr tdata \<and> first_num tdata = Inr t0 \<and> t0 \<noteq> 0))"
  by (cases time_reference) (auto simp: wants_time_reference_def ebind_Inr_iff)

text \<open>
  Claim C10: whenever the writer returns and the time reference is wanted, the file has
  a variable \<open>time_reference\<close> whose data is a character array holding exactly the
  last 20 characters of the units string of the time variable (the whole string when it
  is shorter); a longer units string loses its front.
\<close>

theorem write_cfradial_time_reference:
  assumes "write_cfradial e radar time_reference arm_time_variables = Inr ds"
      and "wants_time_reference radar time_reference = Inr True"
  shows "\<exists>units v a.
           str_item (time radar) ''units'' = Inr units \<and>
           map_of (ds_variables ds) ''time_reference'' = Some v \<and>
           v_data v = Some a \<and> char_array a \<and>
           arr_text a = drop (length units - 20) units"
proof -
  obtain ds1 ds9 ds10 where
    tr: "write_time_reference radar time_reference ds9 = Inr ds10" and
    ext: "extends ds10 ds"
    using write_cfradial_stages [OF assms(1)] by blast
  from tr assms(2) obtain units where
    units: "str_item (time radar) ''units'' = Inr units" and
    cr: "create_ncvar [(''data'', PArr (np_array (PStr (py_last 20 units)))),
                       (''long_name'', PStr ''UTC time reference''),
                       (''units'', PStr ''unitless'')]
           ''time_reference'' [''string_length''] ds9 = Inr ds10"
    by (auto simp: write_time_reference_def ebind_Inr_iff Let_def)
  from create_ncvar_result [OF cr] obtain v where
    fresh: "\<not> has_key (ds_variables ds9) ''time_reference''" and
    ds10: "ds10 = ds9\<lparr>ds_variables := ds_variables ds9 @ [(''time_reference'', v)]\<rparr>" and
    data: "v_data v = Some (at_least_1d (data_array (PArr (np_array (PStr (py_last 20 units))))))"
    by (auto simp: py_item_def)
  have "map_of (ds_variables ds10) ''time_reference'' = Some v"
    using fresh ds10 by (simp add: has_key_def map_add_def)
  then have "map_of (ds_variables ds) ''time_reference'' = Some v"
    using ext by (simp add: extends_def)
  then show ?thesis
    using units data string_data_text [of "py_last 20 units"] by (auto simp: py_last_def)
qed

theorem write_cfradial_time_reference_witness:
  "wants_time_reference example_radar None = Inr True \<and>
   wants_time_reference example_radar (Some True) = Inr True \<and>
   str_item (time example_radar) ''units'' = Inr ''seconds since 2011-05-20T10:54:11Z'' \<and>
   (\<exists>ds v a. write_cfradial example_env example_radar None False = Inr ds \<and>
       map_of (ds_variables ds) ''time_reference'' = Some v \<and> v_data v = Some a \<and>
       arr_text a = ''2011-05-20T10:54:11Z'')"
proof -
  obtain ds where w: "write_cfradial example_env example_radar None False = Inr ds"
    using example_radar_written by blast
  have auto_on: "wants_time_reference example_radar None = Inr True"
    by (simp add: wants_time_reference_def example_radar_def py_item_def first_num_def
          py_get_def ebind_def)
  have forced: "wants_time_reference example_radar (Some True) = Inr True"
    by (simp add: wants_time_reference_def)
  have units: "str_item (time example_radar) ''units'' = Inr ''seconds since 2011-05-20T10:54:11Z''"
    by (simp add: str_item_def example_radar_def py_item_def ebind_def)
  from write_cfradial_time_reference [OF w auto_on] units
  show ?thesis using w auto_on forced by auto
qed

section \<open>Properties of the reader\<close>

text \<open>The definitions that evaluate the reader on a concrete file.\<close>

lemmas reader_defs = read_cfradial_def read_metadata_def read_global_variable_def
  mandatory_var_def optional_var_def ncvar_to_dict_def var_read_def var_shape_def
  read_fields_def read_stream_layout_def add_field_def get_field_name_def read_instrument_parameters_def
  read_radar_calibration_def find_all_meta_group_vars_def first_dim_def
  INSTRUMENT_PARAMS_DIMS_def derive_scan_type_def at_least_1d_def
  has_key_def py_item_def ebind_def Let_def plain_var_def

text \<open>
  Claim C5 at the failing input: a file none of whose variables belongs to the
  calibration group.  The reader returns a record whose \<open>radar_calibration\<close> is the
  empty mapping, not \<open>None\<close>; \<open>instrument_parameters\<close>, which takes the test of
  line 271, is \<open>None\<close>.
\<close>

theorem read_cfradial_empty_calibration:
  "find_all_meta_group_vars (ds_variables example_file) ''radar_calibration'' = [] \<and>
   (case read_cfradial example_file None False None of
      Inr r \<Rightarrow> radar_calibration r | Inl err \<Rightarrow> None) = Some [] \<and>
   (case read_cfradial example_file None False None of
      Inr r \<Rightarrow> instrument_parameters r | Inl err \<Rightarrow> Some []) = None"
  by (simp add: reader_defs example_file_def)

text \<open>The writer fails on the record that the reader returns for this file.\<close>

lemma read_then_write_fails:
  "ebind (read_cfradial example_file None False None)
     (\<lambda>r. write_cfradial example_env r None False) = Inl IndexError"
  by (simp add: reader_defs writer_defs example_file_def example_env_def)

text \<open>On every file the instrument parameters are unset or not empty, and the
  calibration mapping is always set.\<close>

lemma read_instrument_parameters_not_empty: "read_instrument_parameters ncvars \<noteq> Some []"
  by (simp add: read_instrument_parameters_def Let_def)

lemma read_cfradial_members:
  assumes "read_cfradial ncobj field_names file_field_names exclude_fields = Inr r"
  shows "read_fields field_names file_field_names exclude_fields (ds_variables ncobj)
           = Inr (radar_fields r) \<and>
         instrument_parameters r = read_instrument_parameters (ds_variables ncobj) \<and>
         radar_calibration r = Some (read_radar_calibration (ds_variables ncobj))"
  using assms unfolding read_cfradial_def Let_def
  by (elim ebind_InrE) auto

lemma read_cfradial_calibration_set:
  assumes "read_cfradial ncobj field_names file_field_names exclude_fields = Inr r"
  shows "radar_calibration r \<noteq> None \<and> instrument_parameters r \<noteq> Some []"
  using read_cfradial_members [OF assms] read_instrument_parameters_not_empty by simp






text \<open>
  For a variable whose on-disk name is in the exclusion set the loop body looks at the
  policy alone: the variable is skipped when the policy gives no name, and stored under
  the policy's name otherwise.
\<close>

lemma add_field_excluded_key:
  assumes "key \<in> set ex"
  shows "add_field field_names file_field_names (Some ex) to_dict (key, v) fs =
           (case get_field_name field_names file_field_names (Some ex) key of
              None \<Rightarrow> Inr fs
            | Some n \<Rightarrow> ebind (to_dict v) (\<lambda>d. Inr (AList.update n d fs)))"
  using assms by (simp add: add_field_def split: option.splits)





section \<open>Properties of the round trip\<close>









lemma same_variables_admissible:
  "ds_variables ds' = ds_variables ds \<Longrightarrow> all_admissible R ds \<Longrightarrow> all_admissible R ds'"
  by (simp add: all_admissible_def)













































end
